theory Spec2Isabelle
  imports Complex_Main "HOL-Library.AList" "HOL-Library.Sublist" "HOL-Library.Char_ord"
    "HOL-Library.List_Lexorder"
begin

text \<open>
  A model of the portfolio accounting of the spreadsheet application, taken from three
  script files: \<open>Sheets_Trading.js\<close> (the position engine \<open>processFifo\<close> behind the sheet
  functions \<open>myStockPositions\<close> and \<open>myCryptoPositions\<close>), \<open>Sheets_TaxOptimization.js\<close> (the
  number parser \<open>parseMyFloat\<close>) and \<open>Sheets_Taxes \& RealGains.js\<close> (the normalizer, the
  dashboard statistics, the fiscal report, the tax credit basket and the year-by-year
  evolution). Each function of the scripts is a function here under its own name; a loop
  body is a function of the state it changes.
\<close>

section \<open>Numbers, strings and dates of the script\<close>

text \<open>
  The scripts compute with JavaScript numbers. The model computes with exact rationals:
  every number is finite and arithmetic does not lose bits. \<open>NaN\<close> and the infinities
  appear only where a function tests for them, as separate values. A number of the model is
  the exact value for which the script holds a double: a decimal such as 0.1 is itself here
  and the nearest double there, and a sum or a product is exact here and rounded to a double
  there. Two numbers that are equal here are, in the script, equal up to the rounding of the
  double arithmetic that produced them.

  \<open>Number(x.toFixed(p))\<close> rounds \<open>x\<close> to \<open>p\<close> decimals, a tie going away from zero
  (the sign is split off first, and of two candidates the larger is taken). The tie is
  decided on the exact value; the script decides it on the double, which for a decimal that
  ends in 5 may lie below the tie.
\<close>

definition toFixed :: "nat \<Rightarrow> rat \<Rightarrow> rat" where
  "toFixed p x =
     (if x < 0 then - (of_int \<lfloor>(- x) * 10 ^ p + 1 / 2\<rfloor> / 10 ^ p)
      else of_int \<lfloor>x * 10 ^ p + 1 / 2\<rfloor> / 10 ^ p)"

text \<open>
  A quantity is at precision \<open>p\<close> when rounding to \<open>p\<close> decimals leaves it as it is:
  it is an integer multiple of \<open>10\<^sup>-\<^sup>p\<close>.
\<close>

definition atPrecision :: "nat \<Rightarrow> rat \<Rightarrow> bool" where
  "atPrecision p x \<longleftrightarrow> toFixed p x = x"

lemma floor_half: "\<lfloor>(of_int k :: rat) + 1 / 2\<rfloor> = k"
  by linarith

lemma toFixed_grid: "toFixed p (of_int k / 10 ^ p) = of_int k / 10 ^ p"
proof (cases "k < 0")
  case True
  then have neg: "(of_int k :: rat) / 10 ^ p < 0"
    by (simp add: divide_neg_pos)
  have "\<lfloor>- (of_int k / 10 ^ p) * 10 ^ p + 1 / (2::rat)\<rfloor> = - k"
    using floor_half [of "- k"] by simp
  with neg show ?thesis by (simp add: toFixed_def)
next
  case False
  then have nn: "\<not> (of_int k :: rat) / 10 ^ p < 0"
    by (simp add: not_less)
  have "\<lfloor>(of_int k / 10 ^ p) * 10 ^ p + 1 / (2::rat)\<rfloor> = k"
    using floor_half [of k] by simp
  with nn show ?thesis by (simp add: toFixed_def)
qed

lemma toFixed_on_grid: "\<exists>k::int. toFixed p x = of_int k / 10 ^ p"
proof (cases "x < 0")
  case True
  then have "toFixed p x = of_int (- \<lfloor>(- x) * 10 ^ p + 1 / 2\<rfloor>) / 10 ^ p"
    by (simp add: toFixed_def)
  then show ?thesis by blast
next
  case False
  then have "toFixed p x = of_int \<lfloor>x * 10 ^ p + 1 / 2\<rfloor> / 10 ^ p"
    by (simp add: toFixed_def)
  then show ?thesis by blast
qed

lemma atPrecision_iff: "atPrecision p x \<longleftrightarrow> (\<exists>k::int. x = of_int k / 10 ^ p)"
  unfolding atPrecision_def
  by (metis toFixed_grid toFixed_on_grid)

lemma atPrecision_toFixed: "atPrecision p (toFixed p x)"
  using toFixed_on_grid [of p x] by (auto simp: atPrecision_iff)

lemma toFixed_idem: "toFixed p (toFixed p x) = toFixed p x"
  using atPrecision_toFixed [of p x] by (simp add: atPrecision_def)

lemma toFixed_zero: "toFixed p 0 = 0"
  using toFixed_grid [of p 0] by simp

lemma atPrecision_zero: "atPrecision p 0"
  by (simp add: atPrecision_def toFixed_zero)

lemma atPrecision_diff:
  assumes "atPrecision p x" and "atPrecision p y"
  shows "atPrecision p (x - y)"
proof -
  from assms obtain k l :: int where "x = of_int k / 10 ^ p" "y = of_int l / 10 ^ p"
    by (auto simp: atPrecision_iff)
  then have "x - y = of_int (k - l) / 10 ^ p"
    by (simp add: diff_divide_distrib)
  then show ?thesis unfolding atPrecision_iff by blast
qed

lemma toFixed_nonneg: "0 \<le> x \<Longrightarrow> 0 \<le> toFixed p x"
  by (simp add: toFixed_def)

text \<open>\<open>String.prototype.toUpperCase\<close>, on the ASCII letters.\<close>

definition upper_char :: "char \<Rightarrow> char" where
  "upper_char c =
     (let n = (of_char c :: int) in if 97 \<le> n \<and> n \<le> 122 then char_of (n - 32) else c)"

definition toUpperCase :: "string \<Rightarrow> string" where
  "toUpperCase s = map upper_char s"

text \<open>\<open>s.includes(t)\<close>: \<open>t\<close> occurs in \<open>s\<close> as a contiguous run.\<close>

definition includes_str :: "string \<Rightarrow> string \<Rightarrow> bool" where
  "includes_str s t = sublist t s"

text \<open>
  A \<open>Date\<close> is modelled at the resolution of a calendar day of the script's time zone, as
  the integer \<open>yyyymmdd\<close>; these integers are ordered like the time stamps they stand for.
  \<open>Utilities.formatDate(d, tz, "yyyy")\<close> followed by \<open>parseInt\<close> is \<open>year_of\<close>.
\<close>

type_synonym jsdate = int

definition year_of :: "jsdate \<Rightarrow> int" where
  "year_of d = d div 10000"


section \<open>Sheets\_Trading.js: the position engine of the sheet functions\<close>

text \<open>
  \<open>new Date("2026-01-30")\<close> is the start of that day in universal time. At the resolution of
  days a trade dated 2026-01-30 is not before the cut-off; in the script the midnight of that
  day in a time zone east of Greenwich is.
\<close>

definition CUTOFF_DATE :: jsdate where
  "CUTOFF_DATE = 20260130"

record tradeObject =
  tshares :: rat
  tprice :: rat
  taction :: string

definition createTradeObject :: "rat \<Rightarrow> rat \<Rightarrow> string \<Rightarrow> tradeObject" where
  "createTradeObject quantity price action =
     \<lparr>tshares = quantity, tprice = price, taction = action\<rparr>"

text \<open>
  What \<open>dates[i]\<close> can be. From the sheet it is a row of one cell, which is truthy even
  when the cell is blank: \<open>new Date\<close> of it is the date of the cell (\<open>DateCell\<close>), or an
  invalid date when the cell is blank or holds no date (\<open>InvalidDate\<close>). Only when
  \<open>dates[i]\<close> is falsy (the date column is shorter than the ticker column, or the columns
  are passed as plain lists and the entry is blank) does the script take 1900-01-01
  (\<open>NoDateCell\<close>).
\<close>

datatype dateCell = DateCell jsdate | InvalidDate | NoDateCell

text \<open>
  One index \<open>i\<close> of the five parallel columns: the ticker and the action after
  \<open>toString()\<close>, numeric quantity and price cells, and the date cell.
\<close>

record fifoRow =
  security_i :: string
  actions_i :: string
  quantity_i :: rat
  price_i :: rat
  dates_i :: dateCell

text \<open>
  The \<open>Map\<close> from ticker to its queue of lots, in insertion order: \<open>set\<close> on a new key
  appends, \<open>set\<close> on an old key replaces in place, \<open>delete\<close> removes.
\<close>

type_synonym fifoPortfolio = "(string \<times> tradeObject list) list"

text \<open>
  The \<open>while (sharesToSell > 0 && activeTrades.length > 0)\<close> loop. It returns the
  final \<open>sharesToSell\<close> (the sell volume that found no lot) and the queue.
\<close>

fun sellLoop :: "nat \<Rightarrow> rat \<Rightarrow> tradeObject list \<Rightarrow> rat \<times> tradeObject list" where
  "sellLoop precision sharesToSell [] = (sharesToSell, [])"
| "sellLoop precision sharesToSell (oldestTrade # rest) =
     (if sharesToSell > 0 then
        (let availableShares = toFixed precision (tshares oldestTrade) in
         if availableShares \<le> sharesToSell
         then sellLoop precision (toFixed precision (sharesToSell - availableShares)) rest
         else (0, oldestTrade\<lparr>tshares := toFixed precision (availableShares - sharesToSell)\<rparr> # rest))
      else (sharesToSell, oldestTrade # rest))"

definition isBuyRow :: "string \<Rightarrow> bool" where
  "isBuyRow action \<longleftrightarrow>
     action = ''Buy'' \<or> toUpperCase action = ''DRIP'' \<or> toUpperCase action = ''REWARD''"

text \<open>
  The body of the \<open>for\<close> loop of \<open>processFifo\<close>, for one row. \<open>tradeDate\<close> is \<open>None\<close>
  for an invalid date, and the comparison \<open>tradeDate < CUTOFF_DATE\<close> is then false.
\<close>

definition processFifoRow :: "nat \<Rightarrow> bool \<Rightarrow> fifoPortfolio \<Rightarrow> fifoRow \<Rightarrow> fifoPortfolio" where
  "processFifoRow precision keepRows portfolio r =
     (let ticker = security_i r in
      if ticker = [] then portfolio
      else
        let action = actions_i r;
            tradeDate = (case dates_i r of
                           DateCell d \<Rightarrow> Some d
                         | InvalidDate \<Rightarrow> None
                         | NoDateCell \<Rightarrow> Some 19000101);
            trade = createTradeObject (quantity_i r) (price_i r) action;
            portfolio1 =
              (if isBuyRow action then
                 (case map_of portfolio ticker of
                    None \<Rightarrow> AList.update ticker [trade] portfolio
                  | Some q \<Rightarrow> AList.update ticker (q @ [trade]) portfolio)
               else portfolio)
        in
          if action = ''Sell'' then
            (case map_of portfolio1 ticker of
               None \<Rightarrow> portfolio1
             | Some q \<Rightarrow>
                 let activeTrades = snd (sellLoop precision (toFixed precision (tshares trade)) q);
                     portfolio2 = AList.update ticker activeTrades portfolio1
                 in
                   if activeTrades = [] then
                     (if keepRows then
                        (if (case tradeDate of Some d \<Rightarrow> d < CUTOFF_DATE | None \<Rightarrow> False)
                         then AList.delete ticker portfolio2
                         else portfolio2)
                      else AList.delete ticker portfolio2)
                   else portfolio2)
          else portfolio1)"

definition processFifo :: "fifoRow list \<Rightarrow> nat \<Rightarrow> bool \<Rightarrow> fifoPortfolio" where
  "processFifo rows precision keepRows = foldl (processFifoRow precision keepRows) [] rows"

text \<open>One output row per ticker: the ticker, its shares and its average price.\<close>

definition formatPortfolioOutput :: "fifoPortfolio \<Rightarrow> (string \<times> rat \<times> rat) list" where
  "formatPortfolioOutput portfolioMap =
     map (\<lambda>e. let totalShares = sum_list (map tshares (snd e));
                   totalCost = sum_list (map (\<lambda>t. tshares t * tprice t) (snd e));
                   avgPrice = (if totalShares > 0 then totalCost / totalShares else 0)
               in (fst e, totalShares, avgPrice))
         portfolioMap"

text \<open>
  The two sheet functions, called with all five columns (with a column missing they answer
  with an error text and do not reach the engine).
\<close>

definition myStockPositions :: "fifoRow list \<Rightarrow> (string \<times> rat \<times> rat) list" where
  "myStockPositions rows = formatPortfolioOutput (processFifo rows 5 True)"

definition myCryptoPositions :: "fifoRow list \<Rightarrow> (string \<times> rat \<times> rat) list" where
  "myCryptoPositions rows = formatPortfolioOutput (processFifo rows 8 False)"

text \<open>The queue of a ticker, empty when the ticker has no entry.\<close>

definition queueOf :: "fifoPortfolio \<Rightarrow> string \<Rightarrow> tradeObject list" where
  "queueOf portfolio ticker = (case map_of portfolio ticker of None \<Rightarrow> [] | Some q \<Rightarrow> q)"

text \<open>\<open>totalShares\<close> of \<open>formatPortfolioOutput\<close>: the shares of a ticker's lots, summed.\<close>

definition totalShares :: "fifoPortfolio \<Rightarrow> string \<Rightarrow> rat" where
  "totalShares portfolio ticker = sum_list (map tshares (queueOf portfolio ticker))"


section \<open>Cell values and \<open>parseFloat\<close>\<close>

text \<open>
  The text of a cell is a JavaScript string: a list of UTF-16 code units. \<open>js\<close> embeds an
  ASCII literal. Tickers, actions and asset types are kept as ASCII strings.
\<close>

type_synonym jsstr = "int list"

definition js :: "string \<Rightarrow> jsstr" where
  "js s = map of_char s"

text \<open>The class \<open>\s\<close> of regular expressions, also the white space of \<open>trim\<close> and \<open>parseFloat\<close>.\<close>

definition isWhiteSpace :: "int \<Rightarrow> bool" where
  "isWhiteSpace c \<longleftrightarrow>
     c \<in> set [9, 10, 11, 12, 13, 32, 160, 5760, 8232, 8233, 8239, 8287, 12288, 65279]
     \<or> (8192 \<le> c \<and> c \<le> 8202)"

definition isDigit :: "int \<Rightarrow> bool" where
  "isDigit c \<longleftrightarrow> 48 \<le> c \<and> c \<le> 57"

fun digitsValue :: "int \<Rightarrow> jsstr \<Rightarrow> int" where
  "digitsValue acc [] = acc"
| "digitsValue acc (c # cs) = digitsValue (10 * acc + (c - 48)) cs"

text \<open>A JavaScript number as a function can return it: finite, \<open>NaN\<close> or infinite.\<close>

datatype jsnum = Fin rat | NaN | PlusInfinity | MinusInfinity

definition splitSign :: "jsstr \<Rightarrow> bool \<times> jsstr" where
  "splitSign s =
     (case s of
        [] \<Rightarrow> (False, [])
      | c # cs \<Rightarrow> if c = 45 then (True, cs) else if c = 43 then (False, cs) else (False, c # cs))"

text \<open>The exponent part \<open>e\<close>, sign, digits; it counts only when a digit follows.\<close>

definition exponentPart :: "jsstr \<Rightarrow> int" where
  "exponentPart s =
     (case s of
        [] \<Rightarrow> 0
      | c # cs \<Rightarrow>
          if c = 101 \<or> c = 69 then
            (let (neg, r) = splitSign cs; ds = takeWhile isDigit r
             in if ds = [] then 0 else if neg then - digitsValue 0 ds else digitsValue 0 ds)
          else 0)"

definition scale10 :: "int \<Rightarrow> rat \<Rightarrow> rat" where
  "scale10 e x = (if 0 \<le> e then x * 10 ^ nat e else x / 10 ^ nat (- e))"

text \<open>
  \<open>parseFloat\<close>: leading white space is skipped, then the longest prefix that is a decimal
  literal is read (sign, digits, fraction, exponent, or the word \<open>Infinity\<close>); whatever
  follows is ignored, and with no such prefix the result is \<open>NaN\<close>. The result is the
  exact value of the literal; a literal too large for a double reads as that value here and
  as an infinity in the script.
\<close>

definition parseFloat :: "jsstr \<Rightarrow> jsnum" where
  "parseFloat s =
     (let (neg, u) = splitSign (dropWhile isWhiteSpace s) in
      if prefix (js ''Infinity'') u then (if neg then MinusInfinity else PlusInfinity)
      else
        let ip = takeWhile isDigit u;
            r1 = dropWhile isDigit u;
            (fp, r2) = (case r1 of
                          [] \<Rightarrow> ([], [])
                        | c # cs \<Rightarrow> if c = 46 then (takeWhile isDigit cs, dropWhile isDigit cs)
                                    else ([], r1))
        in if ip = [] \<and> fp = [] then NaN
           else
             let m = of_int (digitsValue 0 ip) + of_int (digitsValue 0 fp) / 10 ^ length fp;
                 v = scale10 (exponentPart r2) m
             in Fin (if neg then - v else v))"

text \<open>
  What a sheet hands over for one cell of a numeric column: a number, a text, a truth value,
  or nothing (\<open>undefined\<close>, \<open>null\<close>). A blank cell is the empty text. Date cells are not
  modelled in numeric columns.
\<close>

datatype cell = CNum rat | CStr jsstr | CBool bool | CEmpty

fun falsy :: "cell \<Rightarrow> bool" where
  "falsy (CNum x) = (x = 0)"
| "falsy (CStr s) = (s = [])"
| "falsy (CBool b) = (\<not> b)"
| "falsy CEmpty = True"

text \<open>\<open>toString()\<close> of a cell that is not a number and not falsy.\<close>

fun cellToString :: "cell \<Rightarrow> jsstr" where
  "cellToString (CStr s) = s"
| "cellToString (CBool b) = (if b then js ''true'' else js ''false'')"
| "cellToString _ = []"

text \<open>\<open>s.replace(",", ".")\<close> with a string pattern: the first comma only.\<close>

fun replaceFirstComma :: "jsstr \<Rightarrow> jsstr" where
  "replaceFirstComma [] = []"
| "replaceFirstComma (c # cs) = (if c = 44 then 46 # cs else c # replaceFirstComma cs)"


section \<open>Sheets\_TaxOptimization.js: \<open>parseMyFloat\<close>\<close>

text \<open>The euro sign is the code unit 8364; the full stop is 46, the comma 44.\<close>

definition parseMyFloat :: "cell \<Rightarrow> jsnum" where
  "parseMyFloat v =
     (case v of
        CNum x \<Rightarrow> Fin x
      | _ \<Rightarrow>
          if falsy v then Fin 0
          else
            let cleanStr = filter (\<lambda>c. c \<noteq> 46)
                             (filter (\<lambda>c. \<not> (c = 8364 \<or> isWhiteSpace c)) (cellToString v));
                cleanStr2 = replaceFirstComma cleanStr;
                num = parseFloat cleanStr2
            in if num = NaN then Fin 0 else num)"

section \<open>Sheets\_Taxes \& RealGains.js: normalized trades\<close>

text \<open>
  The canonical trade that \<open>normalizeData\<close> emits and every reporting engine reads.
  The field \<open>type\<close> of the script is \<open>assetType\<close> here.
\<close>

record trade =
  date :: jsdate
  ticker :: string
  action :: string
  qty :: rat
  unitPrice :: rat
  totalSpent :: rat
  assetType :: string

subsection \<open>Data cleaning\<close>

text \<open>
  \<open>cleanNumber\<close>. The character class of its \<open>replace\<close> is taken as the file stores it:
  the code units 226, 8218, 172, 36 (the dollar sign), 194 and 163 (the pound sign), and white
  space. \<open>str.toLowerCase() === "x"\<close> holds for the two texts \<open>x\<close> and \<open>X\<close>.
\<close>

definition trim :: "jsstr \<Rightarrow> jsstr" where
  "trim s = rev (dropWhile isWhiteSpace (rev (dropWhile isWhiteSpace s)))"

definition cleanNumber :: "cell \<Rightarrow> jsnum" where
  "cleanNumber v =
     (if falsy v then Fin 0
      else case v of
        CNum x \<Rightarrow> Fin x
      | _ \<Rightarrow>
          let str = trim (cellToString v) in
          if str = [] \<or> str = js ''x'' \<or> str = js ''X'' then Fin 0
          else
            let str1 = filter (\<lambda>c. \<not> (c \<in> set [226, 8218, 172, 36, 194, 163] \<or> isWhiteSpace c)) str;
                str2 = (if 46 \<in> set str1 \<and> 44 \<in> set str1
                        then replaceFirstComma (filter (\<lambda>c. c \<noteq> 46) str1)
                        else if 44 \<in> set str1 then replaceFirstComma str1
                        else str1);
                num = parseFloat str2
            in if num = NaN then Fin 0 else num)"

definition parseDate :: "jsdate \<Rightarrow> jsdate option \<Rightarrow> jsdate" where
  "parseDate now dateVal = (case dateVal of Some d \<Rightarrow> d | None \<Rightarrow> now)"

definition flat :: "'a list option \<Rightarrow> 'a list" where
  "flat col = (case col of Some rows \<Rightarrow> rows | None \<Rightarrow> [])"

definition cellAt :: "'a list \<Rightarrow> nat \<Rightarrow> 'a option" where
  "cellAt xs i = (if i < length xs then Some (xs ! i) else None)"

definition numAt :: "cell list \<Rightarrow> nat \<Rightarrow> cell" where
  "numAt xs i = (case cellAt xs i of Some c \<Rightarrow> c | None \<Rightarrow> CEmpty)"

text \<open>
  The columns arrive as lists, \<open>None\<close> for a column that is not given; \<open>flat\<close> is the
  \<open>map(r => r[0])\<close> of the script and \<open>cellAt\<close> the read \<open>flat[i]\<close>, \<open>None\<close> past the end.
  The ticker, action and type columns hold texts (blank is the empty text), the date column
  holds dates (blank is \<open>None\<close>, and \<open>now\<close> is \<open>new Date()\<close>), the other columns hold cells.

  A row is skipped, or emitted as a trade. The numbers of a trade are rationals, so a row
  whose cleaned quantity, price or amount is infinite (a cell with the text \<open>Infinity\<close>) is
  emitted as \<open>NotFinite\<close> with its date, its ticker and its action: it stands for the
  trade of the script whose numbers are infinite or \<open>NaN\<close>, and it has its place in the
  sorted output like any other trade.
\<close>

datatype rowOutcome = Skipped | Emitted trade | NotFinite jsdate string string

definition normalizeRow ::
  "jsdate \<Rightarrow> jsdate option list \<Rightarrow> string list \<Rightarrow> string list \<Rightarrow> cell list \<Rightarrow> cell list
     \<Rightarrow> cell list \<Rightarrow> string list \<Rightarrow> bool \<Rightarrow> nat \<Rightarrow> rowOutcome" where
  "normalizeRow now flatDates flatSec flatAct flatQty flatPriceUnit flatSpent flatType isCryptoMode i =
     (case cellAt flatSec i of
        None \<Rightarrow> Skipped
      | Some tk \<Rightarrow>
          if tk = [] then Skipped
          else if includes_str (toUpperCase tk) ''CASH'' \<or> includes_str (toUpperCase tk) ''EUR''
          then Skipped
          else
            let act = (case cellAt flatAct i of
                            Some a \<Rightarrow> if a \<noteq> [] then a else ''Buy''
                          | None \<Rightarrow> ''Buy'');
                dt = parseDate now (case cellAt flatDates i of Some d \<Rightarrow> d | None \<Rightarrow> None)
            in
              case (cleanNumber (numAt flatQty i), cleanNumber (numAt flatPriceUnit i)) of
                (Fin qty0, Fin unitPrice0) \<Rightarrow>
                  if isCryptoMode then
                    (case cleanNumber (numAt flatSpent i) of
                       Fin rawSpent \<Rightarrow>
                         let unitPrice1 = (if unitPrice0 = 0 \<and> qty0 \<noteq> 0 \<and> rawSpent \<noteq> 0
                                           then rawSpent / qty0 else unitPrice0);
                             totalSpent1 = (if rawSpent = 0 \<and> qty0 \<noteq> 0 \<and> unitPrice1 \<noteq> 0
                                            then qty0 * unitPrice1 else rawSpent)
                         in Emitted \<lparr>date = dt, ticker = tk, action = act, qty = qty0,
                                     unitPrice = unitPrice1, totalSpent = totalSpent1,
                                     assetType = ''Crypto''\<rparr>
                     | _ \<Rightarrow> NotFinite dt tk act)
                  else
                    let assetType1 = (case cellAt flatType i of
                                        Some ty \<Rightarrow> if ty \<noteq> [] then ty else ''Stock''
                                      | None \<Rightarrow> ''Stock'');
                        dividend = (act = ''Dividend'' \<or> act = ''Dividends'')
                    in Emitted \<lparr>date = dt, ticker = tk, action = act,
                                qty = (if dividend then 0 else qty0),
                                unitPrice = unitPrice0,
                                totalSpent = (if dividend then unitPrice0 else unitPrice0 * qty0),
                                assetType = assetType1\<rparr>
              | _ \<Rightarrow> NotFinite dt tk act)"

text \<open>The date by which \<open>cleanData.sort\<close> orders what was pushed.\<close>

fun outcomeDate :: "rowOutcome \<Rightarrow> jsdate" where
  "outcomeDate (Emitted t) = date t"
| "outcomeDate (NotFinite dt tk act) = dt"
| "outcomeDate Skipped = 0"

text \<open>
  \<open>normalizeData\<close>: one outcome per index of the ticker column, the skipped rows left out
  (\<open>continue\<close>), the others sorted by date; \<open>Array.prototype.sort\<close> is stable.
\<close>

definition normalizeData ::
  "jsdate \<Rightarrow> jsdate option list option \<Rightarrow> string list option \<Rightarrow> string list option
     \<Rightarrow> cell list option \<Rightarrow> cell list option \<Rightarrow> cell list option \<Rightarrow> string list option
     \<Rightarrow> bool \<Rightarrow> rowOutcome list" where
  "normalizeData now dates security actions quantity priceCol spentCol typeCol isCryptoMode =
     (let outcomes = map (normalizeRow now (flat dates) (flat security) (flat actions) (flat quantity)
                            (flat priceCol) (flat spentCol) (flat typeCol) isCryptoMode)
                         [0 ..< length (flat security)]
      in sort_key outcomeDate (filter (\<lambda>r. r \<noteq> Skipped) outcomes))"

text \<open>
  The trades among the outcomes, in their order: the list that the reporting engines read
  when every number of the sheet is finite.
\<close>

fun emitted :: "rowOutcome list \<Rightarrow> trade list" where
  "emitted [] = []"
| "emitted (Emitted t # rs) = t # emitted rs"
| "emitted (_ # rs) = emitted rs"


subsection \<open>Lots and the loop that closes them\<close>

definition isBuyAction :: "string \<Rightarrow> bool" where
  "isBuyAction a \<longleftrightarrow>
     a \<in> set [''Buy'', ''DRIP'', ''REWARD'', ''STAKING'', ''MINING'', ''MINT'']
     \<or> includes_str (toUpperCase a) ''BUY''"

definition isDividend :: "string \<Rightarrow> bool" where
  "isDividend a \<longleftrightarrow> a = ''Dividend'' \<or> a = ''Dividends''"

definition precisionOf :: "trade \<Rightarrow> nat" where
  "precisionOf t = (if assetType t = ''Crypto'' then 8 else 5)"

record lot =
  shares :: rat
  price :: rat

record datedLot = lot +
  lotDate :: jsdate

definition loopMeasure :: "nat \<Rightarrow> rat \<Rightarrow> 'a lot_scheme list \<Rightarrow> nat" where
  "loopMeasure p sharesToSell lots =
     (if sharesToSell \<le> 0 then 0
      else 2 * length lots +
           (case lots of [] \<Rightarrow> 0 | l # _ \<Rightarrow> if toFixed p (shares l) = shares l then 0 else 1))"

lemma loopMeasure_step:
  assumes "0 < sharesToSell"
    and "availableShares = toFixed p (shares oldestTrade)"
    and "sharesTaken = (if availableShares \<le> sharesToSell then availableShares else sharesToSell)"
    and "newShares = toFixed p (shares oldestTrade - sharesTaken)"
    and "sharesToSell' = toFixed p (sharesToSell - sharesTaken)"
  shows "loopMeasure p sharesToSell'
           (if newShares = 0 then rest else oldestTrade\<lparr>shares := newShares\<rparr> # rest)
         < loopMeasure p sharesToSell (oldestTrade # rest)"
proof (cases "availableShares \<le> sharesToSell")
  case False
  with assms have "sharesToSell' = 0" by (simp add: toFixed_zero)
  with assms(1) show ?thesis by (simp add: loopMeasure_def)
next
  case True
  with assms have taken: "sharesTaken = toFixed p (shares oldestTrade)" by simp
  show ?thesis
  proof (cases "newShares = 0")
    case True
    with assms(1) show ?thesis
      by (auto simp: loopMeasure_def split: list.splits)
  next
    case False
    have "toFixed p (shares oldestTrade) \<noteq> shares oldestTrade"
    proof
      assume "toFixed p (shares oldestTrade) = shares oldestTrade"
      with taken assms(4) have "newShares = 0" by (simp add: toFixed_zero)
      with False show False by simp
    qed
    moreover have "toFixed p newShares = newShares"
      using assms(4) by (simp add: toFixed_idem)
    ultimately show ?thesis using False assms(1)
      by (simp add: loopMeasure_def)
  qed
qed

function statsLoop ::
  "nat \<Rightarrow> rat \<Rightarrow> rat \<Rightarrow> datedLot list \<Rightarrow> rat \<Rightarrow> datedLot list \<times> rat" where
  "statsLoop precision salePrice sharesToSell activeTrades tradingPnL0 =
     (case activeTrades of
        [] \<Rightarrow> ([], tradingPnL0)
      | oldestTrade # rest \<Rightarrow>
          if sharesToSell > 0 then
            (let availableShares = toFixed precision (shares oldestTrade);
                 sharesTaken = (if availableShares \<le> sharesToSell then availableShares else sharesToSell);
                 newShares = toFixed precision (shares oldestTrade - sharesTaken);
                 sharesToSell' = toFixed precision (sharesToSell - sharesTaken);
                 costBasis = sharesTaken * price oldestTrade;
                 revenue = sharesTaken * salePrice
             in statsLoop precision salePrice sharesToSell'
                  (if newShares = 0 then rest else oldestTrade\<lparr>shares := newShares\<rparr> # rest)
                  (tradingPnL0 + (revenue - costBasis)))
          else (activeTrades, tradingPnL0))"
  by pat_completeness auto
termination
  apply (relation "measure (\<lambda>(p, sp, s, lots, pnl). loopMeasure p s lots)")
   apply (rule wf_measure)
  apply (simp only: in_measure prod.case)
  apply (rule loopMeasure_step [OF _ refl refl refl refl])
  apply assumption
  done

declare statsLoop.simps [simp del]

subsection \<open>Engine A: the portfolio dashboard\<close>

text \<open>The statistics of one ticker. \<open>minBuyPrice\<close> starts at \<open>Infinity\<close>, which is \<open>None\<close>.\<close>

record tickerStats =
  statsType :: string
  tradingPnL :: rat
  dividends :: rat
  totalInvestedHistorical :: rat
  firstBuyDate :: "jsdate option"
  firstBuyPrice :: rat
  minBuyPrice :: "rat option"
  maxBuyPrice :: rat
  maxSellPrice :: rat
  totalSoldShares :: rat
  totalSoldRevenue :: rat
  tradeCount :: nat
  lastActionDate :: "jsdate option"

definition initialStats :: "string \<Rightarrow> tickerStats" where
  "initialStats ty =
     \<lparr>statsType = ty, tradingPnL = 0, dividends = 0, totalInvestedHistorical = 0,
      firstBuyDate = None, firstBuyPrice = 0, minBuyPrice = None, maxBuyPrice = 0,
      maxSellPrice = 0, totalSoldShares = 0, totalSoldRevenue = 0, tradeCount = 0,
      lastActionDate = None\<rparr>"

type_synonym statsPortfolio = "(string \<times> datedLot list) list"
type_synonym statsMap = "(string \<times> tickerStats) list"

text \<open>\<open>trade.unitPrice < s.minBuyPrice\<close>, where the minimum may still be \<open>Infinity\<close>.\<close>

definition belowMin :: "rat \<Rightarrow> rat option \<Rightarrow> bool" where
  "belowMin x m = (case m of None \<Rightarrow> True | Some y \<Rightarrow> x < y)"

text \<open>Pushing a lot on the queue of a ticker, the queue being created by the first lot.\<close>

definition pushLot :: "string \<Rightarrow> 'a \<Rightarrow> (string \<times> 'a list) list \<Rightarrow> (string \<times> 'a list) list" where
  "pushLot tk l portfolio =
     (case map_of portfolio tk of
        None \<Rightarrow> AList.update tk [l] portfolio
      | Some q \<Rightarrow> AList.update tk (q @ [l]) portfolio)"

text \<open>The body of the loop of phase 1, for one trade.\<close>

definition statsTrade :: "statsPortfolio \<times> statsMap \<Rightarrow> trade \<Rightarrow> statsPortfolio \<times> statsMap" where
  "statsTrade st trade =
     (let portfolio = fst st;
          stats = snd st;
          tk = ticker trade;
          precision = precisionOf trade;
          s0 = (case map_of stats tk of None \<Rightarrow> initialStats (assetType trade) | Some s \<Rightarrow> s);
          s1 = s0\<lparr>lastActionDate := Some (date trade), tradeCount := tradeCount s0 + 1\<rparr>
      in
        if isDividend (action trade) then
          (portfolio, AList.update tk (s1\<lparr>dividends := dividends s1 + totalSpent trade\<rparr>) stats)
        else if isBuyAction (action trade) then
          (let s2 = (if totalInvestedHistorical s1 = 0
                     then s1\<lparr>firstBuyDate := Some (date trade), firstBuyPrice := unitPrice trade\<rparr>
                     else s1);
               s3 = (if unitPrice trade > 0 then
                       (let s2a = (if belowMin (unitPrice trade) (minBuyPrice s2)
                                   then s2\<lparr>minBuyPrice := Some (unitPrice trade)\<rparr> else s2)
                        in if unitPrice trade > maxBuyPrice s2a
                           then s2a\<lparr>maxBuyPrice := unitPrice trade\<rparr> else s2a)
                     else s2);
               s4 = s3\<lparr>totalInvestedHistorical := totalInvestedHistorical s3 + totalSpent trade\<rparr>;
               l = \<lparr>shares = qty trade, price = unitPrice trade, lotDate = date trade\<rparr>
           in (pushLot tk l portfolio, AList.update tk s4 stats))
        else if action trade = ''Sell'' then
          (let s2 = (if unitPrice trade > maxSellPrice s1
                     then s1\<lparr>maxSellPrice := unitPrice trade\<rparr> else s1);
               s3 = s2\<lparr>totalSoldShares := totalSoldShares s2 + qty trade,
                        totalSoldRevenue := totalSoldRevenue s2 + qty trade * unitPrice trade\<rparr>
           in case map_of portfolio tk of
                None \<Rightarrow> (portfolio, AList.update tk s3 stats)
              | Some activeTrades \<Rightarrow>
                  (let r = statsLoop precision (unitPrice trade) (toFixed precision (qty trade))
                             activeTrades (tradingPnL s3);
                       portfolio1 = AList.update tk (fst r) portfolio
                   in (if fst r = [] then AList.delete tk portfolio1 else portfolio1,
                       AList.update tk (s3\<lparr>tradingPnL := snd r\<rparr>) stats)))
        else (portfolio, AList.update tk s1 stats))"

text \<open>Phase 1 of \<open>calculatePortfolioStats\<close>: the trades in date order (the sort is stable).\<close>

definition portfolioStatsPhase1 :: "trade list \<Rightarrow> statsPortfolio \<times> statsMap" where
  "portfolioStatsPhase1 allData = foldl statsTrade ([], []) (sort_key date allData)"

text \<open>Phase 2: shares and book value of the open lots of each ticker, tickers sorted.\<close>

record bookValue =
  currentShares :: rat
  bookVal :: rat
  activeSince :: "jsdate option"

definition bookValueOf :: "statsPortfolio \<Rightarrow> string \<Rightarrow> bookValue" where
  "bookValueOf portfolio tk =
     (case map_of portfolio tk of
        None \<Rightarrow> \<lparr>currentShares = 0, bookVal = 0, activeSince = None\<rparr>
      | Some lots \<Rightarrow>
          \<lparr>currentShares = sum_list (map shares lots),
           bookVal = sum_list (map (\<lambda>l. shares l * price l) lots),
           activeSince = (case lots of [] \<Rightarrow> None | l # _ \<Rightarrow> Some (lotDate l))\<rparr>)"

definition tickerBookValues :: "trade list \<Rightarrow> (string \<times> bookValue) list" where
  "tickerBookValues allData =
     (let r = portfolioStatsPhase1 allData
      in map (\<lambda>tk. (tk, bookValueOf (fst r) tk)) (sort (map fst (snd r))))"

definition grandTotalBookValue :: "trade list \<Rightarrow> rat" where
  "grandTotalBookValue allData = sum_list (map (\<lambda>p. bookVal (snd p)) (tickerBookValues allData))"

subsection \<open>Engine B: the detailed fiscal report\<close>

text \<open>
  One row of the report, the header row left out: date, year, ticker, type, sold quantity,
  sell price, load price, P\&L, tax and capital loss.
\<close>

record fiscalRow =
  saleDate :: jsdate
  saleYear :: int
  saleTicker :: string
  saleType :: string
  soldQty :: rat
  sellPrice :: rat
  loadPrice :: rat
  pnl :: rat
  tax :: rat
  capitalLoss :: rat

type_synonym fiscalPortfolio = "(string \<times> lot list) list"

text \<open>The loop that closes lots; it returns the queue, \<open>totalCost\<close> and \<open>sharesSold\<close>.\<close>

function fiscalLoop ::
  "nat \<Rightarrow> rat \<Rightarrow> lot list \<Rightarrow> rat \<Rightarrow> rat \<Rightarrow> lot list \<times> rat \<times> rat" where
  "fiscalLoop precision sharesToSell activeTrades totalCost sharesSold =
     (case activeTrades of
        [] \<Rightarrow> ([], totalCost, sharesSold)
      | oldestTrade # rest \<Rightarrow>
          if sharesToSell > 0 then
            (let availableShares = toFixed precision (shares oldestTrade);
                 sharesTaken = (if availableShares \<le> sharesToSell then availableShares else sharesToSell);
                 newShares = toFixed precision (shares oldestTrade - sharesTaken);
                 sharesToSell' = toFixed precision (sharesToSell - sharesTaken)
             in fiscalLoop precision sharesToSell'
                  (if newShares = 0 then rest else oldestTrade\<lparr>shares := newShares\<rparr> # rest)
                  (totalCost + sharesTaken * price oldestTrade)
                  (sharesSold + sharesTaken))
          else (activeTrades, totalCost, sharesSold))"
  by pat_completeness auto
termination
  apply (relation "measure (\<lambda>(p, s, lots, tc, ss). loopMeasure p s lots)")
   apply (rule wf_measure)
  apply (simp only: in_measure prod.case)
  apply (rule loopMeasure_step [OF _ refl refl refl refl])
  apply assumption
  done

declare fiscalLoop.simps [simp del]

definition fiscalTrade ::
  "fiscalPortfolio \<times> fiscalRow list \<Rightarrow> trade \<Rightarrow> fiscalPortfolio \<times> fiscalRow list" where
  "fiscalTrade st trade =
     (let portfolio = fst st;
          report = snd st;
          tk = ticker trade;
          precision = precisionOf trade
      in
        if isBuyAction (action trade) then
          (pushLot tk \<lparr>shares = qty trade, price = unitPrice trade\<rparr> portfolio, report)
        else if action trade = ''Sell'' then
          (case map_of portfolio tk of
             None \<Rightarrow> (portfolio, report)
           | Some activeTrades \<Rightarrow>
               (let salePrice = unitPrice trade;
                    r = fiscalLoop precision (toFixed precision (qty trade)) activeTrades 0 0;
                    activeTrades' = fst r;
                    totalCost = fst (snd r);
                    sharesSold = snd (snd r);
                    report1 =
                      (if sharesSold > 0 then
                         (let revenue = sharesSold * salePrice;
                              pnl1 = revenue - totalCost
                          in report @
                             [\<lparr>saleDate = date trade, saleYear = year_of (date trade),
                               saleTicker = tk, saleType = assetType trade,
                               soldQty = sharesSold, sellPrice = salePrice,
                               loadPrice = totalCost / sharesSold, pnl = pnl1,
                               tax = (if pnl1 > 0 then pnl1 * (26 / 100) else 0),
                               capitalLoss = (if pnl1 < 0 then \<bar>pnl1\<bar> else 0)\<rparr>])
                       else report);
                    portfolio1 = AList.update tk activeTrades' portfolio
                in (if activeTrades' = [] then AList.delete tk portfolio1 else portfolio1, report1)))
        else (portfolio, report))"

definition fiscalRun :: "trade list \<Rightarrow> fiscalPortfolio \<times> fiscalRow list" where
  "fiscalRun allData = foldl fiscalTrade ([], []) (sort_key date allData)"

definition calculateFiscalReportDetails :: "trade list \<Rightarrow> fiscalRow list" where
  "calculateFiscalReportDetails allData = snd (fiscalRun allData)"

subsection \<open>Engine C: the tax credit basket\<close>

record yearStats =
  gainCompensabile :: rat
  gainNonCompensabile :: rat
  lossAnno :: rat

type_synonym yearlyStats = "(int \<times> yearStats) list"
type_synonym yearlyDividends = "(int \<times> rat) list"
type_synonym minusBucket = "(int \<times> rat) list"

definition emptyYear :: yearStats where
  "emptyYear = \<lparr>gainCompensabile = 0, gainNonCompensabile = 0, lossAnno = 0\<rparr>"

text \<open>\<open>m.get(k) || 0\<close> on a map of amounts.\<close>

definition getOr0 :: "(int \<times> rat) list \<Rightarrow> int \<Rightarrow> rat" where
  "getOr0 m k = (case map_of m k of Some v \<Rightarrow> v | None \<Rightarrow> 0)"

definition addDividend :: "yearlyDividends \<Rightarrow> trade \<Rightarrow> yearlyDividends" where
  "addDividend m d =
     (if isDividend (action d)
      then AList.update (year_of (date d)) (getOr0 m (year_of (date d)) + totalSpent d) m
      else m)"

definition addSale :: "yearlyStats \<Rightarrow> fiscalRow \<Rightarrow> yearlyStats" where
  "addSale m t =
     (let s = (case map_of m (saleYear t) of Some s \<Rightarrow> s | None \<Rightarrow> emptyYear)
      in AList.update (saleYear t)
           (if pnl t \<ge> 0 then
              (if saleType t = ''ETF''
               then s\<lparr>gainNonCompensabile := gainNonCompensabile s + pnl t\<rparr>
               else s\<lparr>gainCompensabile := gainCompensabile s + pnl t\<rparr>)
            else s\<lparr>lossAnno := lossAnno s + \<bar>pnl t\<bar>\<rparr>)
           m)"

definition addDividendYear :: "yearlyStats \<Rightarrow> int \<Rightarrow> yearlyStats" where
  "addDividendYear m y = (case map_of m y of Some _ \<Rightarrow> m | None \<Rightarrow> AList.update y emptyYear m)"

text \<open>
  The loop over the years of the basket, oldest first, that uses losses against the gain of
  \<open>year\<close>. It stops as soon as no gain remains.
\<close>

fun useBasket :: "int \<Rightarrow> int list \<Rightarrow> minusBucket \<Rightarrow> rat \<Rightarrow> rat \<Rightarrow> minusBucket \<times> rat \<times> rat" where
  "useBasket year [] bucket usedZainetto remainingGain = (bucket, usedZainetto, remainingGain)"
| "useBasket year (pastYear # rest) bucket usedZainetto remainingGain =
     (if year - pastYear > 4 then useBasket year rest bucket usedZainetto remainingGain
      else
        case map_of bucket pastYear of
          None \<Rightarrow> useBasket year rest bucket usedZainetto remainingGain
        | Some available \<Rightarrow>
            (let take = min available remainingGain;
                 bucket1 = AList.update pastYear (available - take) bucket;
                 usedZainetto1 = usedZainetto + take;
                 remainingGain1 = remainingGain - take;
                 bucket2 = (if available - take = 0 then AList.delete pastYear bucket1 else bucket1)
             in if remainingGain1 = 0 then (bucket2, usedZainetto1, remainingGain1)
                else useBasket year rest bucket2 usedZainetto1 remainingGain1))"

text \<open>The notes of a row, with their amounts; the script prints them as text.\<close>

datatype advice =
    Urgent rat
  | Inefficient
  | TaxOnEtfDiv
  | Expired rat
  | Recovered rat
  | BasketActive rat
  | NoResidualLosses
  | CryptoExcluded

definition INCLUDE_CRYPTO_IN_TAX_BASKET :: bool where
  "INCLUDE_CRYPTO_IN_TAX_BASKET = False"

record zainettoRow =
  rowYear :: int
  usefulGain :: rat
  uselessGain :: rat
  newLosses :: rat
  basketUsed :: rat
  basketExpired :: rat
  netTaxable :: rat
  taxDue :: rat
  residualBasket :: rat
  analysis :: "advice list"

text \<open>
  The body of the loop over the years, in the four parts the script marks. Part A uses the
  basket against the compensable gain of the year; it yields the basket, \<open>usedZainetto\<close>
  and \<open>taxableBase\<close>.
\<close>

definition useBasketStep ::
  "yearStats \<Rightarrow> rat \<Rightarrow> minusBucket \<Rightarrow> int \<Rightarrow> minusBucket \<times> rat \<times> rat" where
  "useBasketStep s gainNoComp bucket year =
     (if gainCompensabile s > 0
      then (let r = useBasket year (sort (map fst bucket)) bucket 0 (gainCompensabile s)
            in (fst r, fst (snd r), gainNoComp + snd (snd r)))
      else (bucket, 0, gainNoComp))"

text \<open>Part B: the net loss of the year opens an entry; the two results of part A are reset.\<close>

definition newLossesStep ::
  "yearStats \<Rightarrow> rat \<Rightarrow> minusBucket \<times> rat \<times> rat \<Rightarrow> int \<Rightarrow> minusBucket \<times> rat \<times> rat" where
  "newLossesStep s gainNoComp a year =
     (if lossAnno s > 0 \<and> gainCompensabile s - lossAnno s < 0
      then (AList.update year \<bar>gainCompensabile s - lossAnno s\<bar> (fst a), 0, gainNoComp)
      else a)"

text \<open>Part C: the entry of the year \<open>year - 4\<close>, if there is one, expires.\<close>

definition cleanExpiredStep :: "minusBucket \<Rightarrow> int \<Rightarrow> rat \<times> minusBucket" where
  "cleanExpiredStep bucket year =
     (case map_of bucket (year - 4) of
        Some expiredAmount \<Rightarrow> (expiredAmount, AList.delete (year - 4) bucket)
      | None \<Rightarrow> (0, bucket))"

text \<open>Part D: the residual basket and the notes.\<close>

definition nextExpiryAmount :: "minusBucket \<Rightarrow> int \<Rightarrow> rat" where
  "nextExpiryAmount bucket year =
     sum_list (map snd (filter (\<lambda>e. 4 - (year - fst e) = 0) bucket))"

definition strategicAnalysis :: "minusBucket \<Rightarrow> int \<Rightarrow> rat \<Rightarrow> rat \<Rightarrow> rat \<Rightarrow> advice list" where
  "strategicAnalysis bucket year gainNoComp expiredAmount usedZainetto =
     (let totalResiduo = sum_list (map snd bucket);
          notes1 = (if nextExpiryAmount bucket year > 0 then [Urgent (nextExpiryAmount bucket year)] else [])
                   @ (if gainNoComp > 0 \<and> totalResiduo > 0 then [Inefficient]
                      else if gainNoComp > 0 then [TaxOnEtfDiv] else [])
                   @ (if expiredAmount > 0 then [Expired expiredAmount] else [])
                   @ (if usedZainetto > 0 then [Recovered (usedZainetto * (26 / 100))] else []);
          notes2 = (if notes1 = []
                    then (if totalResiduo > 0 then [BasketActive totalResiduo] else [NoResidualLosses])
                    else notes1)
      in if INCLUDE_CRYPTO_IN_TAX_BASKET then notes2 else notes2 @ [CryptoExcluded])"

definition zainettoYear ::
  "yearlyStats \<Rightarrow> yearlyDividends \<Rightarrow> minusBucket \<Rightarrow> int \<Rightarrow> minusBucket \<times> zainettoRow" where
  "zainettoYear stats yearlyDivs bucket year =
     (let s = (case map_of stats year of Some s \<Rightarrow> s | None \<Rightarrow> emptyYear);
          divs = getOr0 yearlyDivs year;
          gainNoComp = gainNonCompensabile s + divs;
          b = newLossesStep s gainNoComp (useBasketStep s gainNoComp bucket year) year;
          usedZainetto = fst (snd b);
          taxableBase = snd (snd b);
          c = cleanExpiredStep (fst b) year;
          expiredAmount = fst c
      in (snd c,
          \<lparr>rowYear = year, usefulGain = gainCompensabile s, uselessGain = gainNoComp,
           newLosses = (if lossAnno s > gainCompensabile s then lossAnno s - gainCompensabile s else 0),
           basketUsed = usedZainetto, basketExpired = expiredAmount, netTaxable = taxableBase,
           taxDue = taxableBase * (26 / 100), residualBasket = sum_list (map snd (snd c)),
           analysis = strategicAnalysis (snd c) year gainNoComp expiredAmount usedZainetto\<rparr>))"

fun zainettoYears ::
  "yearlyStats \<Rightarrow> yearlyDividends \<Rightarrow> minusBucket \<Rightarrow> int list \<Rightarrow> zainettoRow list" where
  "zainettoYears stats yearlyDivs bucket [] = []"
| "zainettoYears stats yearlyDivs bucket (year # years) =
     (let r = zainettoYear stats yearlyDivs bucket year
      in snd r # zainettoYears stats yearlyDivs (fst r) years)"

definition yearlyDividendsOf :: "trade list \<Rightarrow> yearlyDividends" where
  "yearlyDividendsOf allData = foldl addDividend [] (sort_key date allData)"

definition yearlyStatsOf :: "trade list \<Rightarrow> yearlyStats" where
  "yearlyStatsOf allData =
     foldl addDividendYear (foldl addSale [] (calculateFiscalReportDetails allData))
       (map fst (yearlyDividendsOf allData))"

definition calculateZainettoReport :: "trade list \<Rightarrow> zainettoRow list" where
  "calculateZainettoReport allData =
     (let stats = yearlyStatsOf allData
      in zainettoYears stats (yearlyDividendsOf allData) [] (sort (map fst stats)))"

subsection \<open>The year-by-year evolution of the portfolio\<close>

record holding =
  heldQty :: rat
  invested :: rat
  heldType :: string

type_synonym holdings = "(string \<times> holding) list"

text \<open>
  The \<open>Simple Accumulation Logic\<close>, for one trade. The script adds, subtracts and divides
  doubles here and rounds nothing with \<open>toFixed\<close>; the model has the exact results.
\<close>

definition holdingTrade :: "holdings \<Rightarrow> trade \<Rightarrow> holdings" where
  "holdingTrade hs trade =
     (let t = ticker trade;
          h = (case map_of hs t of
                 Some h \<Rightarrow> h
               | None \<Rightarrow> \<lparr>heldQty = 0, invested = 0, heldType = assetType trade\<rparr>)
      in AList.update t
           (if isBuyAction (action trade) then
              h\<lparr>heldQty := heldQty h + qty trade, invested := invested h + totalSpent trade\<rparr>
            else if action trade = ''Sell'' then
              (if heldQty h > 0 then
                 (let avgCost = invested h / heldQty h
                  in h\<lparr>invested := invested h - qty trade * avgCost,
                        heldQty := heldQty h - qty trade\<rparr>)
               else h)
            else if action trade = ''Split'' then h\<lparr>heldQty := heldQty h + qty trade\<rparr>
            else h)
           hs)"

text \<open>The holdings at a cut-off date: the trades up to it, in date order.\<close>

definition holdingsAt :: "jsdate \<Rightarrow> trade list \<Rightarrow> holdings" where
  "holdingsAt cutoffDate allData =
     foldl holdingTrade [] (filter (\<lambda>d. date d \<le> cutoffDate) (sort_key date allData))"

record evolutionRow =
  snapshotYear :: int
  snapshotDate :: jsdate
  ownedTicker :: string
  ownedType :: string
  ownedQty :: rat
  histInvested :: rat

definition evolutionYear :: "jsdate \<Rightarrow> trade list \<Rightarrow> int \<Rightarrow> evolutionRow list" where
  "evolutionYear today allData year =
     (let cutoffDate = (if year = year_of today then today else year * 10000 + 1231)
      in map (\<lambda>e. \<lparr>snapshotYear = year, snapshotDate = cutoffDate, ownedTicker = fst e,
                    ownedType = heldType (snd e), ownedQty = heldQty (snd e),
                    histInvested = invested (snd e)\<rparr>)
           (filter (\<lambda>e. heldQty (snd e) > 1 / 1000000) (holdingsAt cutoffDate allData)))"

text \<open>
  \<open>PORTFOLIO_EVOLUZIONE\<close> after the two calls of \<open>normalizeData\<close>: \<open>allData\<close> is the stock
  trades followed by the crypto trades, \<open>today\<close> is \<open>new Date()\<close>. \<open>None\<close> is the answer
  \<open>No data found\<close>; the header row is left out.
\<close>

definition PORTFOLIO_EVOLUZIONE :: "jsdate \<Rightarrow> trade list \<Rightarrow> evolutionRow list option" where
  "PORTFOLIO_EVOLUZIONE today allData =
     (case sort_key date allData of
        [] \<Rightarrow> None
      | first # _ \<Rightarrow>
          Some (concat (map (evolutionYear today allData)
                         [year_of (date first) ..  year_of today])))"


section \<open>Quantities used to state the properties\<close>

text \<open>Lots of a queue that are non-negative and at precision \<open>p\<close>.\<close>

definition lotsOk :: "nat \<Rightarrow> tradeObject list \<Rightarrow> bool" where
  "lotsOk p q \<longleftrightarrow> (\<forall>l \<in> set q. 0 \<le> tshares l \<and> atPrecision p (tshares l))"

definition pfOk :: "nat \<Rightarrow> fifoPortfolio \<Rightarrow> bool" where
  "pfOk p pf \<longleftrightarrow> (\<forall>t q. map_of pf t = Some q \<longrightarrow> lotsOk p q)"

definition rowBought :: "string \<Rightarrow> fifoRow \<Rightarrow> rat" where
  "rowBought t r = (if security_i r = t \<and> isBuyRow (actions_i r) then quantity_i r else 0)"

definition rowConsumed :: "nat \<Rightarrow> fifoPortfolio \<Rightarrow> string \<Rightarrow> fifoRow \<Rightarrow> rat" where
  "rowConsumed p pf t r =
     (if security_i r = t \<and> actions_i r = ''Sell''
      then (let s = toFixed p (quantity_i r) in s - fst (sellLoop p s (queueOf pf t)))
      else 0)"

definition boughtFor :: "string \<Rightarrow> fifoRow list \<Rightarrow> rat" where
  "boughtFor t rows = sum_list (map (rowBought t) rows)"

fun consumedFor :: "nat \<Rightarrow> bool \<Rightarrow> fifoPortfolio \<Rightarrow> fifoRow list \<Rightarrow> string \<Rightarrow> rat" where
  "consumedFor p k pf [] t = 0"
| "consumedFor p k pf (r # rs) t = rowConsumed p pf t r + consumedFor p k (processFifoRow p k pf r) rs t"

text \<open>Two small histories of one stock, used as concrete inputs.\<close>

definition conservedExample :: "fifoRow list" where
  "conservedExample =
     [\<lparr>security_i = ''ACME'', actions_i = ''Buy'', quantity_i = 10, price_i = 100, dates_i = DateCell 20230101\<rparr>,
      \<lparr>security_i = ''ACME'', actions_i = ''Sell'', quantity_i = 4, price_i = 150, dates_i = DateCell 20240101\<rparr>,
      \<lparr>security_i = ''ACME'', actions_i = ''Sell'', quantity_i = 3, price_i = 150, dates_i = DateCell 20240201\<rparr>]"

definition roundingExample :: "fifoRow list" where
  "roundingExample =
     [\<lparr>security_i = ''ACME'', actions_i = ''Buy'', quantity_i = 1000004 / 1000000, price_i = 100,
       dates_i = DateCell 20230101\<rparr>,
      \<lparr>security_i = ''ACME'', actions_i = ''Sell'', quantity_i = 1 / 2, price_i = 150,
       dates_i = DateCell 20240101\<rparr>]"

text \<open>A stock trade as \<open>normalizeData\<close> emits it: the amount is price times quantity.\<close>

definition stockTrade :: "jsdate \<Rightarrow> string \<Rightarrow> string \<Rightarrow> string \<Rightarrow> rat \<Rightarrow> rat \<Rightarrow> trade" where
  "stockTrade d tk ty a q p =
     \<lparr>date = d, ticker = tk, action = a, qty = q, unitPrice = p, totalSpent = p * q, assetType = ty\<rparr>"

definition fifoScenario :: "trade list" where
  "fifoScenario =
     [stockTrade 20230101 ''ACME'' ''Stock'' ''Buy'' 10 100,
      stockTrade 20230601 ''ACME'' ''Stock'' ''Buy'' 10 120,
      stockTrade 20240101 ''ACME'' ''Stock'' ''Sell'' 15 150]"

definition gapHistory :: "trade list" where
  "gapHistory =
     [stockTrade 20200110 ''ALFA'' ''Stock'' ''Buy'' 10 100,
      stockTrade 20200620 ''ALFA'' ''Stock'' ''Sell'' 10 50,
      stockTrade 20260110 ''BETA'' ''Stock'' ''Buy'' 10 100,
      stockTrade 20260620 ''BETA'' ''Stock'' ''Sell'' 10 110]"

definition netLossHistory :: "trade list" where
  "netLossHistory =
     [stockTrade 20200110 ''ALFA'' ''Stock'' ''Buy'' 10 100,
      stockTrade 20200620 ''ALFA'' ''Stock'' ''Sell'' 10 50,
      stockTrade 20210110 ''BETA'' ''Stock'' ''Buy'' 10 100,
      stockTrade 20210111 ''GAMMA'' ''Stock'' ''Buy'' 10 100,
      stockTrade 20210620 ''BETA'' ''Stock'' ''Sell'' 10 110,
      stockTrade 20210621 ''GAMMA'' ''Stock'' ''Sell'' 10 70]"

definition etfHistory :: "trade list" where
  "etfHistory =
     [stockTrade 20200110 ''ALFA'' ''Stock'' ''Buy'' 10 100,
      stockTrade 20200620 ''ALFA'' ''Stock'' ''Sell'' 10 50,
      stockTrade 20210110 ''WORLD'' ''ETF'' ''Buy'' 10 100,
      stockTrade 20210620 ''WORLD'' ''ETF'' ''Sell'' 10 150]"

text \<open>
  The non-compensable gains of a year, read off the inputs of the basket engine: the gains of
  the ETF sales of the fiscal report, and the dividends among the trades.
\<close>

definition etfGainsIn :: "trade list \<Rightarrow> int \<Rightarrow> rat" where
  "etfGainsIn allData y =
     sum_list (map pnl (filter (\<lambda>t. saleYear t = y \<and> saleType t = ''ETF'' \<and> pnl t \<ge> 0)
                          (calculateFiscalReportDetails allData)))"

definition dividendsIn :: "trade list \<Rightarrow> int \<Rightarrow> rat" where
  "dividendsIn allData y =
     sum_list (map totalSpent (filter (\<lambda>d. isDividend (action d) \<and> year_of (date d) = y) allData))"

definition statsOr :: "yearlyStats \<Rightarrow> int \<Rightarrow> yearStats" where
  "statsOr m y = (case map_of m y of Some s \<Rightarrow> s | None \<Rightarrow> emptyYear)"

definition nonnegBucket :: "minusBucket \<Rightarrow> bool" where
  "nonnegBucket b \<longleftrightarrow> list_all (\<lambda>e. 0 \<le> snd e) b"

definition rowOk :: "yearlyStats \<Rightarrow> yearlyDividends \<Rightarrow> zainettoRow \<Rightarrow> bool" where
  "rowOk stats divs r \<longleftrightarrow>
     uselessGain r = gainNonCompensabile (statsOr stats (rowYear r)) + getOr0 divs (rowYear r)
     \<and> uselessGain r \<le> netTaxable r
     \<and> taxDue r = netTaxable r * (26 / 100)
     \<and> (usefulGain r = 0 \<longrightarrow> netTaxable r = uselessGain r)"

text \<open>The capital a ticker counts as invested so far, zero before its first trade.\<close>

definition investedBefore :: "statsMap \<Rightarrow> string \<Rightarrow> rat" where
  "investedBefore stats tk =
     (case map_of stats tk of None \<Rightarrow> 0 | Some s \<Rightarrow> totalInvestedHistorical s)"

text \<open>A sell of ten shares, and a portfolio that holds five of them.\<close>

definition sellRow :: fifoRow where
  "sellRow = \<lparr>security_i = ''ACME'', actions_i = ''Sell'', quantity_i = 10, price_i = 150,
              dates_i = DateCell 20240101\<rparr>"

definition heldPortfolio :: fifoPortfolio where
  "heldPortfolio = [(''ACME'', [\<lparr>tshares = 5, tprice = 100, taction = ''Buy''\<rparr>]),
                    (''BETA'', [\<lparr>tshares = 2, tprice = 30, taction = ''Buy''\<rparr>])]"

text \<open>
  The code units of a number in the European format: digits, the full stop that groups
  thousands, the euro sign and white space. A code unit with which no number and no
  cleaning starts. The text of a cell after the two removals of \<open>parseMyFloat\<close>.
\<close>

definition europeanChar :: "int \<Rightarrow> bool" where
  "europeanChar c \<longleftrightarrow> isDigit c \<or> c = 46 \<or> c = 8364 \<or> isWhiteSpace c"

definition numberStart :: "int \<Rightarrow> bool" where
  "numberStart c \<longleftrightarrow>
     isDigit c \<or> c = 43 \<or> c = 45 \<or> c = 46 \<or> c = 44 \<or> c = 73 \<or> c = 8364 \<or> isWhiteSpace c"

definition cleaned :: "jsstr \<Rightarrow> jsstr" where
  "cleaned s = filter (\<lambda>c. c \<noteq> 46) (filter (\<lambda>c. \<not> (c = 8364 \<or> isWhiteSpace c)) s)"

text \<open>
  What the two engines hold for a ticker: the open lots of the dashboard engine, and the
  quantity and the invested capital of the reconstruction. A list of trades has covered
  sells when, replayed by the reconstruction, no sell is larger than the quantity held. A
  plain trade is not a split, and if it buys or sells, its quantity is not negative and is at
  the precision of its asset type.
\<close>

definition openLots :: "(string \<times> 'a list) list \<Rightarrow> string \<Rightarrow> 'a list" where
  "openLots portfolio tk = (case map_of portfolio tk of None \<Rightarrow> [] | Some q \<Rightarrow> q)"










text \<open>
  The cleaned numbers of row \<open>i\<close> are finite: the quantity, the price and, for the crypto
  sheet, the amount spent.
\<close>

definition finiteNumber :: "jsnum \<Rightarrow> bool" where
  "finiteNumber n = (case n of Fin x \<Rightarrow> True | _ \<Rightarrow> False)"

definition finiteRow :: "cell list \<Rightarrow> cell list \<Rightarrow> cell list \<Rightarrow> bool \<Rightarrow> nat \<Rightarrow> bool" where
  "finiteRow flatQty flatPriceUnit flatSpent isCryptoMode i \<longleftrightarrow>
     finiteNumber (cleanNumber (numAt flatQty i))
     \<and> finiteNumber (cleanNumber (numAt flatPriceUnit i))
     \<and> (isCryptoMode \<longrightarrow> finiteNumber (cleanNumber (numAt flatSpent i)))"


section \<open>Properties of the position engine\<close>

lemma sellLoop_conserves:
  assumes "lotsOk p q" and "atPrecision p s"
  shows "sum_list (map tshares (snd (sellLoop p s q))) = sum_list (map tshares q) - (s - fst (sellLoop p s q))
         \<and> lotsOk p (snd (sellLoop p s q))"
  using assms
proof (induction q arbitrary: s)
  case Nil
  then show ?case by (simp add: lotsOk_def)
next
  case (Cons l q)
  from Cons.prems have l: "0 \<le> tshares l" "toFixed p (tshares l) = tshares l" and q: "lotsOk p q"
    by (simp_all add: lotsOk_def atPrecision_def)
  show ?case
  proof (cases "0 < s")
    case False
    with Cons.prems show ?thesis by simp
  next
    case pos: True
    show ?thesis
    proof (cases "tshares l \<le> s")
      case True
      have ap: "atPrecision p (s - tshares l)"
        using Cons.prems l by (intro atPrecision_diff) (simp_all add: atPrecision_def)
      then have eq: "toFixed p (s - tshares l) = s - tshares l"
        by (simp add: atPrecision_def)
      from Cons.IH [OF q ap] pos True l eq show ?thesis
        by simp
    next
      case False
      have ap: "atPrecision p (tshares l - s)"
        using Cons.prems l by (intro atPrecision_diff) (simp_all add: atPrecision_def)
      then have eq: "toFixed p (tshares l - s) = tshares l - s"
        by (simp add: atPrecision_def)
      from False pos l eq q ap show ?thesis
        by (simp add: lotsOk_def)
    qed
  qed
qed

lemma not_isBuyRow_Sell: "\<not> isBuyRow ''Sell''"
  by code_simp

lemma lotsOk_Nil: "lotsOk p []"
  by (simp add: lotsOk_def)

lemma lotsOk_snoc: "lotsOk p q \<Longrightarrow> 0 \<le> tshares l \<Longrightarrow> atPrecision p (tshares l) \<Longrightarrow> lotsOk p (q @ [l])"
  by (simp add: lotsOk_def)

lemma row_buy:
  assumes "isBuyRow (actions_i r)" and "security_i r \<noteq> []"
  shows "processFifoRow p k pf r =
     AList.update (security_i r) (queueOf pf (security_i r) @ [createTradeObject (quantity_i r) (price_i r) (actions_i r)]) pf"
proof -
  from assms(1) have "actions_i r \<noteq> ''Sell''" using not_isBuyRow_Sell by auto
  with assms show ?thesis
    by (simp add: processFifoRow_def Let_def queueOf_def split: option.splits)
qed

lemma row_other:
  assumes "\<not> isBuyRow (actions_i r)" and "actions_i r \<noteq> ''Sell''"
  shows "processFifoRow p k pf r = pf"
  using assms by (simp add: processFifoRow_def Let_def)

lemma row_sell_absent:
  assumes "actions_i r = ''Sell''" and "map_of pf (security_i r) = None"
  shows "processFifoRow p k pf r = pf"
  using assms not_isBuyRow_Sell by (simp add: processFifoRow_def Let_def)

lemma row_sell_queue:
  assumes "actions_i r = ''Sell''" and "security_i r \<noteq> []" and "map_of pf (security_i r) = Some q"
  shows "queueOf (processFifoRow p k pf r) t =
           (if t = security_i r then snd (sellLoop p (toFixed p (quantity_i r)) q) else queueOf pf t)"
  using assms not_isBuyRow_Sell
  by (auto simp: processFifoRow_def Let_def queueOf_def createTradeObject_def update_conv' delete_conv')

lemma row_sell_map:
  assumes "actions_i r = ''Sell''" and "security_i r \<noteq> []" and "map_of pf (security_i r) = Some q"
    and "map_of (processFifoRow p k pf r) t = Some q'"
  shows "if t = security_i r then q' = snd (sellLoop p (toFixed p (quantity_i r)) q) else map_of pf t = Some q'"
  using assms not_isBuyRow_Sell
  by (auto simp: processFifoRow_def Let_def createTradeObject_def update_conv' delete_conv' split: if_splits)

lemma queueOf_update: "queueOf (AList.update k v pf) t = (if t = k then v else queueOf pf t)"
  by (simp add: queueOf_def update_conv')

lemma pfOk_queueOf: "pfOk p pf \<Longrightarrow> lotsOk p (queueOf pf t)"
  by (auto simp: pfOk_def queueOf_def lotsOk_Nil split: option.splits)

lemma pfOk_update: "pfOk p pf \<Longrightarrow> lotsOk p v \<Longrightarrow> pfOk p (AList.update k v pf)"
  by (simp add: pfOk_def update_conv')

lemma row_shares:
  assumes ok: "pfOk p pf"
    and buy: "isBuyRow (actions_i r) \<longrightarrow> 0 \<le> quantity_i r \<and> atPrecision p (quantity_i r)"
    and t: "t \<noteq> []"
  shows "totalShares (processFifoRow p k pf r) t = totalShares pf t + rowBought t r - rowConsumed p pf t r"
proof (cases "security_i r = []")
  case True
  then have "processFifoRow p k pf r = pf"
    by (simp add: processFifoRow_def)
  with True t show ?thesis
    by (auto simp: rowBought_def rowConsumed_def)
next
  case ne: False
  show ?thesis
  proof (cases "isBuyRow (actions_i r)")
    case True
    then have ns: "actions_i r \<noteq> ''Sell''" using not_isBuyRow_Sell by auto
    from True ne ns show ?thesis
      by (simp add: row_buy totalShares_def queueOf_update rowBought_def rowConsumed_def createTradeObject_def)
  next
    case nb: False
    show ?thesis
    proof (cases "actions_i r = ''Sell''")
      case False
      with nb show ?thesis
        by (simp add: row_other rowBought_def rowConsumed_def)
    next
      case sell: True
      show ?thesis
      proof (cases "map_of pf (security_i r)")
        case None
        with sell nb show ?thesis
          by (auto simp: row_sell_absent rowBought_def rowConsumed_def queueOf_def Let_def)
      next
        case (Some q)
        from ok Some have q: "lotsOk p q" by (auto simp: pfOk_def)
        from Some have qo: "queueOf pf (security_i r) = q" by (simp add: queueOf_def)
        from sellLoop_conserves [OF q atPrecision_toFixed [of p "quantity_i r"]]
        have "sum_list (map tshares (snd (sellLoop p (toFixed p (quantity_i r)) q))) =
              sum_list (map tshares q) - (toFixed p (quantity_i r) - fst (sellLoop p (toFixed p (quantity_i r)) q))"
          by simp
        with sell nb qo show ?thesis
          by (auto simp: totalShares_def row_sell_queue [OF sell ne Some] rowBought_def rowConsumed_def Let_def)
      qed
    qed
  qed
qed

lemma row_pfOk:
  assumes ok: "pfOk p pf"
    and buy: "isBuyRow (actions_i r) \<longrightarrow> 0 \<le> quantity_i r \<and> atPrecision p (quantity_i r)"
  shows "pfOk p (processFifoRow p k pf r)"
proof (cases "security_i r = []")
  case True
  then have "processFifoRow p k pf r = pf"
    by (simp add: processFifoRow_def)
  with ok show ?thesis by simp
next
  case ne: False
  show ?thesis
  proof (cases "isBuyRow (actions_i r)")
    case True
    with buy have "lotsOk p (queueOf pf (security_i r) @ [createTradeObject (quantity_i r) (price_i r) (actions_i r)])"
      by (intro lotsOk_snoc pfOk_queueOf ok) (simp_all add: createTradeObject_def)
    with True ne ok show ?thesis
      by (simp add: row_buy pfOk_update)
  next
    case nb: False
    show ?thesis
    proof (cases "actions_i r = ''Sell''")
      case False
      with nb ok show ?thesis by (simp add: row_other)
    next
      case sell: True
      show ?thesis
      proof (cases "map_of pf (security_i r)")
        case None
        with sell ok show ?thesis by (simp add: row_sell_absent)
      next
        case (Some q)
        from ok Some have q: "lotsOk p q" by (auto simp: pfOk_def)
        have q': "lotsOk p (snd (sellLoop p (toFixed p (quantity_i r)) q))"
          using sellLoop_conserves [OF q atPrecision_toFixed [of p "quantity_i r"]] by simp
        show ?thesis
          unfolding pfOk_def
        proof (intro allI impI)
          fix t q'' assume m: "map_of (processFifoRow p k pf r) t = Some q''"
          from row_sell_map [OF sell ne Some m] q' ok show "lotsOk p q''"
            by (auto simp: pfOk_def split: if_splits)
        qed
      qed
    qed
  qed
qed

lemma totalShares_nonneg: "pfOk p pf \<Longrightarrow> 0 \<le> totalShares pf t"
  using pfOk_queueOf [of p pf t]
  by (auto simp: totalShares_def lotsOk_def intro!: sum_list_nonneg)

lemma fold_shares:
  assumes "pfOk p pf"
    and "\<forall>r \<in> set rows. isBuyRow (actions_i r) \<longrightarrow> 0 \<le> quantity_i r \<and> atPrecision p (quantity_i r)"
    and "t \<noteq> []"
  shows "totalShares (foldl (processFifoRow p k) pf rows) t
           = totalShares pf t + boughtFor t rows - consumedFor p k pf rows t
         \<and> pfOk p (foldl (processFifoRow p k) pf rows)"
  using assms
proof (induction rows arbitrary: pf)
  case Nil
  then show ?case by (simp add: boughtFor_def)
next
  case (Cons r rows)
  from Cons.prems have b: "isBuyRow (actions_i r) \<longrightarrow> 0 \<le> quantity_i r \<and> atPrecision p (quantity_i r)"
    by simp
  have ok': "pfOk p (processFifoRow p k pf r)"
    by (rule row_pfOk [OF Cons.prems(1) b])
  from Cons.prems have rest: "\<forall>r \<in> set rows. isBuyRow (actions_i r) \<longrightarrow> 0 \<le> quantity_i r \<and> atPrecision p (quantity_i r)"
    by simp
  from Cons.IH [OF ok' rest Cons.prems(3)] row_shares [OF Cons.prems(1) b Cons.prems(3), of k]
  show ?case by (simp add: boughtFor_def)
qed

lemma pfOk_empty: "pfOk p []"
  by (simp add: pfOk_def)

text \<open>
  C7, amended. For every ticker and every list of rows whose buy rows have non-negative
  quantities at the precision of the run, after each prefix of the rows the shares of the
  ticker's remaining lots are the shares bought minus the sell volume consumed from lots,
  and they are not negative.
\<close>

theorem processFifo_shares_conserved:
  assumes "t \<noteq> []"
    and "\<forall>r \<in> set rows. isBuyRow (actions_i r) \<longrightarrow> 0 \<le> quantity_i r \<and> atPrecision p (quantity_i r)"
    and "n \<le> length rows"
  shows "totalShares (processFifo (take n rows) p k) t
           = boughtFor t (take n rows) - consumedFor p k [] (take n rows) t
         \<and> 0 \<le> totalShares (processFifo (take n rows) p k) t"
proof -
  have sub: "\<forall>r \<in> set (take n rows). isBuyRow (actions_i r) \<longrightarrow> 0 \<le> quantity_i r \<and> atPrecision p (quantity_i r)"
    using assms(2) by (meson in_set_takeD)
  from fold_shares [OF pfOk_empty sub assms(1), of k]
  have eq: "totalShares (processFifo (take n rows) p k) t
              = boughtFor t (take n rows) - consumedFor p k [] (take n rows) t"
    and ok: "pfOk p (processFifo (take n rows) p k)"
    by (simp_all add: processFifo_def totalShares_def queueOf_def)
  from eq totalShares_nonneg [OF ok, of t] show ?thesis
    by simp
qed

text \<open>
  C7, as stated, at a quantity with six decimals. A stock of 1.000004 shares is bought and
  0.5 shares are sold at precision 5: the lot is first rounded to 1.00000, so 0.5 shares
  remain, while 1.000004 were bought and 0.5 consumed. The remaining shares are not the
  shares bought minus the shares consumed.
\<close>

theorem processFifo_shares_rounding_counterexample:
  "totalShares (processFifo roundingExample 5 True) ''ACME'' = 1 / 2
   \<and> boughtFor ''ACME'' roundingExample = 1000004 / 1000000
   \<and> consumedFor 5 True [] roundingExample ''ACME'' = 1 / 2
   \<and> totalShares (processFifo roundingExample 5 True) ''ACME''
       \<noteq> boughtFor ''ACME'' roundingExample - consumedFor 5 True [] roundingExample ''ACME''"
  by code_simp

theorem processFifo_shares_conserved_witness:
  "2 \<le> length conservedExample
   \<and> totalShares (processFifo (take 2 conservedExample) 5 True) ''ACME'' = 6
   \<and> boughtFor ''ACME'' (take 2 conservedExample) = 10
   \<and> consumedFor 5 True [] (take 2 conservedExample) ''ACME'' = 4"
proof -
  have h1: "''ACME'' \<noteq> []" by simp
  have h2: "\<forall>r \<in> set conservedExample.
              isBuyRow (actions_i r) \<longrightarrow> 0 \<le> quantity_i r \<and> atPrecision 5 (quantity_i r)"
    by code_simp
  have h3: "2 \<le> length conservedExample" by code_simp
  have b: "boughtFor ''ACME'' (take 2 conservedExample) = 10" by code_simp
  have c: "consumedFor 5 True [] (take 2 conservedExample) ''ACME'' = 4" by code_simp
  from processFifo_shares_conserved [OF h1 h2 h3, of True] b c
  have "totalShares (processFifo (take 2 conservedExample) 5 True) ''ACME'' = 6" by simp
  with h3 b c show ?thesis by simp
qed

text \<open>
  C9, as stated, at a sell of 10 shares against a lot of 5: the queue of the ticker does not
  stay as it was, the lot is closed and the ticker leaves the portfolio.
\<close>

theorem oversell_changes_queue_counterexample:
  "processFifo [\<lparr>security_i = ''ACME'', actions_i = ''Buy'', quantity_i = 5, price_i = 100,
                 dates_i = DateCell 20230101\<rparr>] 5 True
     = [(''ACME'', [\<lparr>tshares = 5, tprice = 100, taction = ''Buy''\<rparr>])]
   \<and> processFifo [\<lparr>security_i = ''ACME'', actions_i = ''Buy'', quantity_i = 5, price_i = 100,
                   dates_i = DateCell 20230101\<rparr>,
                  \<lparr>security_i = ''ACME'', actions_i = ''Sell'', quantity_i = 10, price_i = 150,
                   dates_i = DateCell 20240101\<rparr>] 5 True
     = []"
  by code_simp

lemma sellLoop_oversell:
  assumes "atPrecision p s"
    and "\<forall>l \<in> set q. 0 \<le> tshares l"
    and "sum_list (map (\<lambda>l. toFixed p (tshares l)) q) < s"
  shows "snd (sellLoop p s q) = []"
  using assms
proof (induction q arbitrary: s)
  case Nil
  then show ?case by simp
next
  case (Cons l q)
  let ?a = "toFixed p (tshares l)"
  from Cons.prems(2) have a0: "0 \<le> ?a" and rest0: "\<forall>l \<in> set q. 0 \<le> tshares l"
    by (simp_all add: toFixed_nonneg)
  from rest0 have sum0: "0 \<le> sum_list (map (\<lambda>l. toFixed p (tshares l)) q)"
    by (intro sum_list_nonneg) (auto simp: toFixed_nonneg)
  from Cons.prems(3) have lt: "?a + sum_list (map (\<lambda>l. toFixed p (tshares l)) q) < s"
    by simp
  with a0 sum0 have pos: "0 < s" and le: "?a \<le> s" by linarith+
  have "atPrecision p (s - ?a)"
    by (rule atPrecision_diff [OF Cons.prems(1) atPrecision_toFixed])
  then have eq: "toFixed p (s - ?a) = s - ?a" and ap: "atPrecision p (s - ?a)"
    by (simp_all add: atPrecision_def)
  from lt have "sum_list (map (\<lambda>l. toFixed p (tshares l)) q) < s - ?a" by linarith
  from Cons.IH [OF ap rest0 this] pos le eq show ?case
    by simp
qed

lemma row_sell_others:
  assumes "actions_i r = ''Sell''" and "t \<noteq> security_i r"
  shows "queueOf (processFifoRow p k pf r) t = queueOf pf t"
proof (cases "security_i r = []")
  case True
  then show ?thesis by (simp add: processFifoRow_def)
next
  case ne: False
  show ?thesis
  proof (cases "map_of pf (security_i r)")
    case None
    with assms show ?thesis by (simp add: row_sell_absent)
  next
    case (Some q)
    from row_sell_queue [OF assms(1) ne Some] assms(2) show ?thesis by simp
  qed
qed

lemma row_sell_empty_ticker:
  assumes "actions_i r = ''Sell''" and "security_i r = []"
  shows "processFifoRow p k pf r = pf"
  using assms by (simp add: processFifoRow_def)

text \<open>
  C9, amended. A sell on a ticker that has no queue leaves the portfolio as it is, and the
  rows after it are processed as if the sell were not there. A sell on a ticker with an
  empty queue changes the lots of no ticker. A sell never touches the queue of another
  ticker. A sell of more than the shares held (lots not negative) closes every lot of its
  ticker and drops the rest of the volume. No case raises an error.
\<close>

theorem sell_without_cover:
  assumes "actions_i r = ''Sell''"
  shows "(map_of pf (security_i r) = None \<longrightarrow> processFifoRow p k pf r = pf)
       \<and> (map_of (processFifo pre p k) (security_i r) = None \<longrightarrow>
            processFifo (pre @ r # post) p k = processFifo (pre @ post) p k)
       \<and> (queueOf pf (security_i r) = [] \<longrightarrow>
            queueOf (processFifoRow p k pf r) t = queueOf pf t)
       \<and> (t \<noteq> security_i r \<longrightarrow> queueOf (processFifoRow p k pf r) t = queueOf pf t)
       \<and> (security_i r \<noteq> [] \<and> (\<forall>l \<in> set (queueOf pf (security_i r)). 0 \<le> tshares l)
            \<and> sum_list (map (\<lambda>l. toFixed p (tshares l)) (queueOf pf (security_i r)))
                < toFixed p (quantity_i r) \<longrightarrow>
            queueOf (processFifoRow p k pf r) (security_i r) = [])"
proof (intro conjI impI)
  assume "map_of pf (security_i r) = None"
  with assms show "processFifoRow p k pf r = pf" by (rule row_sell_absent)
next
  assume "map_of (processFifo pre p k) (security_i r) = None"
  with assms have "processFifoRow p k (processFifo pre p k) r = processFifo pre p k"
    by (rule row_sell_absent)
  then show "processFifo (pre @ r # post) p k = processFifo (pre @ post) p k"
    by (simp add: processFifo_def)
next
  assume e: "queueOf pf (security_i r) = []"
  show "queueOf (processFifoRow p k pf r) t = queueOf pf t"
  proof (cases "t = security_i r")
    case False
    with assms show ?thesis by (simp add: row_sell_others)
  next
    case t: True
    show ?thesis
    proof (cases "security_i r = []")
      case True
      with assms show ?thesis by (simp add: row_sell_empty_ticker)
    next
      case ne: False
      show ?thesis
      proof (cases "map_of pf (security_i r)")
        case None
        with assms show ?thesis by (simp add: row_sell_absent)
      next
        case (Some q)
        with e have "q = []" by (simp add: queueOf_def)
        with row_sell_queue [OF assms ne Some, of p k t] t e show ?thesis by simp
      qed
    qed
  qed
next
  assume "t \<noteq> security_i r"
  with assms show "queueOf (processFifoRow p k pf r) t = queueOf pf t"
    by (rule row_sell_others)
next
  assume h: "security_i r \<noteq> [] \<and> (\<forall>l \<in> set (queueOf pf (security_i r)). 0 \<le> tshares l)
            \<and> sum_list (map (\<lambda>l. toFixed p (tshares l)) (queueOf pf (security_i r)))
                < toFixed p (quantity_i r)"
  show "queueOf (processFifoRow p k pf r) (security_i r) = []"
  proof (cases "map_of pf (security_i r)")
    case None
    with assms show ?thesis by (simp add: row_sell_absent queueOf_def)
  next
    case (Some q)
    then have q: "queueOf pf (security_i r) = q" by (simp add: queueOf_def)
    from h q have "snd (sellLoop p (toFixed p (quantity_i r)) q) = []"
      by (intro sellLoop_oversell atPrecision_toFixed) simp_all
    with row_sell_queue [OF assms _ Some, of p k "security_i r"] h show ?thesis by simp
  qed
qed

theorem sell_without_cover_witness:
  "processFifoRow 5 True [] sellRow = []
   \<and> queueOf (processFifoRow 5 True heldPortfolio sellRow) ''ACME'' = []
   \<and> queueOf (processFifoRow 5 True heldPortfolio sellRow) ''BETA''
       = [\<lparr>tshares = 2, tprice = 30, taction = ''Buy''\<rparr>]"
proof -
  have a: "actions_i sellRow = ''Sell''" by code_simp
  have n: "map_of [] (security_i sellRow) = (None :: tradeObject list option)" by simp
  have o: "''BETA'' \<noteq> security_i sellRow" by code_simp
  have c: "security_i sellRow \<noteq> []
           \<and> (\<forall>l \<in> set (queueOf heldPortfolio (security_i sellRow)). 0 \<le> tshares l)
           \<and> sum_list (map (\<lambda>l. toFixed 5 (tshares l)) (queueOf heldPortfolio (security_i sellRow)))
               < toFixed 5 (quantity_i sellRow)"
    by code_simp
  have s: "security_i sellRow = ''ACME''" by code_simp
  have b: "queueOf heldPortfolio ''BETA'' = [\<lparr>tshares = 2, tprice = 30, taction = ''Buy''\<rparr>]"
    by code_simp
  from sell_without_cover [OF a, of "[]" 5 True] n
  have 1: "processFifoRow 5 True [] sellRow = []" by blast
  from sell_without_cover [OF a, of heldPortfolio 5 True "[]" "[]" "''BETA''"] o c s b
  have 2: "queueOf (processFifoRow 5 True heldPortfolio sellRow) ''ACME'' = []"
    and 3: "queueOf (processFifoRow 5 True heldPortfolio sellRow) ''BETA''
              = [\<lparr>tshares = 2, tprice = 30, taction = ''Buy''\<rparr>]"
    by auto
  from 1 2 3 show ?thesis by simp
qed

section \<open>Properties of the number parser\<close>

text \<open>
  C5, as stated, at the US-formatted text \<open>1,234.56\<close>: the full stop is removed as a
  thousands separator and the comma becomes the decimal point, so the result is 1.23456 and
  not 1234.56. A dollar sign is not stripped: the text \<open>$1.234,56\<close> reads as 0.
\<close>

theorem parseMyFloat_us_counterexample:
  "parseMyFloat (CStr (js ''1,234.56'')) = Fin (123456 / 100000)
   \<and> parseMyFloat (CStr (js ''1,234.56'')) \<noteq> Fin (123456 / 100)
   \<and> parseMyFloat (CStr (js ''$1.234,56'')) = Fin 0"
  by code_simp

lemma digit_plain:
  assumes "isDigit c"
  shows "\<not> isWhiteSpace c" "c \<noteq> 8364" "c \<noteq> 46" "c \<noteq> 44" "c \<noteq> 45" "c \<noteq> 43" "c \<noteq> 73"
  using assms by (auto simp: isDigit_def isWhiteSpace_def)

lemma cleaned_european:
  "\<forall>c \<in> set a. europeanChar c \<Longrightarrow> cleaned a = filter isDigit a"
  unfolding cleaned_def
  by (induction a) (auto simp: europeanChar_def digit_plain)

lemma cleaned_append: "cleaned (a @ b) = cleaned a @ cleaned b"
  by (simp add: cleaned_def)

lemma cleaned_comma: "cleaned (44 # b) = 44 # cleaned b"
  by (simp add: cleaned_def isWhiteSpace_def)

lemma replaceFirstComma_digits:
  "\<forall>c \<in> set d. isDigit c \<Longrightarrow> replaceFirstComma (d @ 44 # e) = d @ 46 # e"
  by (induction d) (auto simp: digit_plain)

lemma replaceFirstComma_none:
  "\<forall>c \<in> set d. isDigit c \<Longrightarrow> replaceFirstComma d = d"
  by (induction d) (auto simp: digit_plain)

lemma takeWhile_digits: "\<forall>c \<in> set d. isDigit c \<Longrightarrow> takeWhile isDigit (d @ 46 # e) = d"
  by (induction d) (auto simp: isDigit_def)

lemma dropWhile_digits: "\<forall>c \<in> set d. isDigit c \<Longrightarrow> dropWhile isDigit (d @ 46 # e) = 46 # e"
  by (induction d) (auto simp: isDigit_def)

lemma not_prefix_Infinity: "c \<noteq> 73 \<Longrightarrow> \<not> prefix (js ''Infinity'') (c # u)"
  by (simp add: js_def)

lemma parseFloat_decimal:
  assumes d: "\<forall>c \<in> set d. isDigit c" and ne: "d \<noteq> []" and e: "\<forall>c \<in> set e. isDigit c"
  shows "parseFloat (d @ 46 # e)
           = Fin (of_int (digitsValue 0 d) + of_int (digitsValue 0 e) / 10 ^ length e)"
proof -
  from ne obtain c u where du: "d = c # u" by (cases d) auto
  with d have c: "isDigit c" by simp
  have ws: "dropWhile isWhiteSpace (d @ 46 # e) = d @ 46 # e"
    using c by (simp add: du digit_plain)
  have sg: "splitSign (d @ 46 # e) = (False, d @ 46 # e)"
    using c by (simp add: du splitSign_def digit_plain)
  have inf: "\<not> prefix (js ''Infinity'') (d @ 46 # e)"
    using c by (simp add: du not_prefix_Infinity digit_plain)
  have tw: "takeWhile isDigit e = e" "dropWhile isDigit e = []"
    using e by (simp_all add: takeWhile_eq_all_conv)
  show ?thesis
    unfolding parseFloat_def ws sg
    using inf ne
    by (simp add: takeWhile_digits [OF d] dropWhile_digits [OF d] tw exponentPart_def scale10_def)
qed

lemma parseFloat_integer:
  assumes d: "\<forall>c \<in> set d. isDigit c" and ne: "d \<noteq> []"
  shows "parseFloat d = Fin (of_int (digitsValue 0 d))"
proof -
  from ne obtain c u where du: "d = c # u" by (cases d) auto
  with d have c: "isDigit c" by simp
  have ws: "dropWhile isWhiteSpace d = d"
    using c by (simp add: du digit_plain)
  have sg: "splitSign d = (False, d)"
    using c by (simp add: du splitSign_def digit_plain)
  have inf: "\<not> prefix (js ''Infinity'') d"
    using c by (simp add: du not_prefix_Infinity digit_plain)
  have tw: "takeWhile isDigit d = d" "dropWhile isDigit d = []"
    using d by (simp_all add: takeWhile_eq_all_conv)
  show ?thesis
    unfolding parseFloat_def ws sg
    using inf ne
    by (simp add: tw exponentPart_def scale10_def)
qed

lemma parseFloat_no_number:
  assumes "\<not> numberStart c"
  shows "parseFloat (c # u) = NaN"
proof -
  from assms have c: "\<not> isWhiteSpace c" "c \<noteq> 45" "c \<noteq> 43" "c \<noteq> 73" "\<not> isDigit c" "c \<noteq> 46"
    by (auto simp: numberStart_def)
  have ws: "dropWhile isWhiteSpace (c # u) = c # u" using c by simp
  have sg: "splitSign (c # u) = (False, c # u)" using c by (simp add: splitSign_def)
  show ?thesis
    unfolding parseFloat_def ws sg
    using c by (simp add: not_prefix_Infinity)
qed

lemma parseMyFloat_text:
  "s \<noteq> [] \<Longrightarrow> parseMyFloat (CStr s)
     = (if parseFloat (replaceFirstComma (cleaned s)) = NaN then Fin 0
        else parseFloat (replaceFirstComma (cleaned s)))"
  by (simp add: parseMyFloat_def cleaned_def Let_def)

lemma filter_digits: "\<forall>c \<in> set (filter isDigit a). isDigit c"
  by simp

text \<open>
  C5, amended. A text made of digits, grouping full stops, euro signs and white space, with
  at least one digit before an optional decimal comma, reads as the number its digits spell:
  the digits before the comma as the integer part, those after it as the decimals. A number
  cell is returned as it is; an empty text and a missing value read as 0; and a text that
  starts with a code unit that begins neither a number nor a removal reads as 0.
\<close>

theorem parseMyFloat_european:
  assumes a: "\<forall>c \<in> set a. europeanChar c"
    and b: "\<forall>c \<in> set b. europeanChar c"
    and ne: "filter isDigit a \<noteq> []"
  shows "parseMyFloat (CStr (a @ 44 # b))
           = Fin (of_int (digitsValue 0 (filter isDigit a))
                  + of_int (digitsValue 0 (filter isDigit b)) / 10 ^ length (filter isDigit b))
       \<and> parseMyFloat (CStr a) = Fin (of_int (digitsValue 0 (filter isDigit a)))
       \<and> parseMyFloat (CNum x) = Fin x
       \<and> parseMyFloat (CStr []) = Fin 0
       \<and> parseMyFloat CEmpty = Fin 0
       \<and> (\<not> numberStart c \<longrightarrow> parseMyFloat (CStr (c # u)) = Fin 0)"
proof (intro conjI impI)
  have "replaceFirstComma (cleaned (a @ 44 # b)) = filter isDigit a @ 46 # filter isDigit b"
    by (simp add: cleaned_append cleaned_comma cleaned_european [OF a] cleaned_european [OF b]
          replaceFirstComma_digits)
  then show "parseMyFloat (CStr (a @ 44 # b))
           = Fin (of_int (digitsValue 0 (filter isDigit a))
                  + of_int (digitsValue 0 (filter isDigit b)) / 10 ^ length (filter isDigit b))"
    by (simp add: parseMyFloat_text parseFloat_decimal [OF filter_digits ne filter_digits])
next
  from ne have "a \<noteq> []" by auto
  moreover have "replaceFirstComma (cleaned a) = filter isDigit a"
    by (simp add: cleaned_european [OF a] replaceFirstComma_none)
  ultimately show "parseMyFloat (CStr a) = Fin (of_int (digitsValue 0 (filter isDigit a)))"
    by (simp add: parseMyFloat_text parseFloat_integer [OF filter_digits ne])
next
  show "parseMyFloat (CNum x) = Fin x" by (simp add: parseMyFloat_def)
next
  show "parseMyFloat (CStr []) = Fin 0" by (simp add: parseMyFloat_def)
next
  show "parseMyFloat CEmpty = Fin 0" by (simp add: parseMyFloat_def)
next
  assume c: "\<not> numberStart c"
  then have keep: "c \<noteq> 46" "c \<noteq> 8364" "\<not> isWhiteSpace c" "c \<noteq> 44"
    by (auto simp: numberStart_def)
  then have "replaceFirstComma (cleaned (c # u)) = c # replaceFirstComma (cleaned u)"
    by (simp add: cleaned_def)
  with c show "parseMyFloat (CStr (c # u)) = Fin 0"
    by (simp add: parseMyFloat_text parseFloat_no_number)
qed

theorem parseMyFloat_european_witness:
  "parseMyFloat (CStr (js ''1.234,56'')) = Fin (123456 / 100)
   \<and> parseMyFloat (CStr (js ''1.250,50 '' @ [8364])) = Fin (125050 / 100)
   \<and> parseMyFloat (CStr (js ''abc'')) = Fin 0"
proof -
  have a1: "\<forall>c \<in> set (js ''1.234''). europeanChar c" by code_simp
  have b1: "\<forall>c \<in> set (js ''56''). europeanChar c" by code_simp
  have n1: "filter isDigit (js ''1.234'') \<noteq> []" by code_simp
  have s1: "js ''1.234'' @ 44 # js ''56'' = js ''1.234,56''" by code_simp
  have v1: "of_int (digitsValue 0 (filter isDigit (js ''1.234'')))
            + of_int (digitsValue 0 (filter isDigit (js ''56''))) / 10 ^ length (filter isDigit (js ''56''))
            = (123456 / 100 :: rat)" by code_simp
  have a2: "\<forall>c \<in> set (js ''1.250''). europeanChar c" by code_simp
  have b2: "\<forall>c \<in> set (js ''50 '' @ [8364]). europeanChar c" by code_simp
  have n2: "filter isDigit (js ''1.250'') \<noteq> []" by code_simp
  have s2: "js ''1.250'' @ 44 # (js ''50 '' @ [8364]) = js ''1.250,50 '' @ [8364]" by code_simp
  have v2: "of_int (digitsValue 0 (filter isDigit (js ''1.250'')))
            + of_int (digitsValue 0 (filter isDigit (js ''50 '' @ [8364])))
              / 10 ^ length (filter isDigit (js ''50 '' @ [8364]))
            = (125050 / 100 :: rat)" by code_simp
  have c3: "\<not> numberStart 97" by code_simp
  have s3: "97 # js ''bc'' = js ''abc''" by code_simp
  from parseMyFloat_european [OF a1 b1 n1] s1 v1
  have 1: "parseMyFloat (CStr (js ''1.234,56'')) = Fin (123456 / 100)" by simp
  from parseMyFloat_european [OF a2 b2 n2] s2 v2
  have 2: "parseMyFloat (CStr (js ''1.250,50 '' @ [8364])) = Fin (125050 / 100)" by simp
  from parseMyFloat_european [OF a1 b1 n1, of 0 97 "js ''bc''"] c3 s3
  have 3: "parseMyFloat (CStr (js ''abc'')) = Fin 0" by simp
  from 1 2 3 show ?thesis by simp
qed


section \<open>Properties of the reporting engines\<close>

text \<open>
  C1. The trades are: buy 10 shares at 100 on 2023-01-01, buy 10 at 120 on 2023-06-01, sell
  15 at 150 on 2024-01-01, all of one stock. The fiscal report then has one sale, with a
  P\&L of 650, and the queue keeps one lot of 5 shares at 120; the dashboard engine
  accumulates the same trading P\&L of 650 and keeps the same lot.
\<close>

theorem fifo_scenario:
  "map pnl (calculateFiscalReportDetails fifoScenario) = [650]
   \<and> fst (fiscalRun fifoScenario) = [(''ACME'', [\<lparr>shares = 5, price = 120\<rparr>])]
   \<and> map (\<lambda>e. (fst e, tradingPnL (snd e))) (snd (portfolioStatsPhase1 fifoScenario)) = [(''ACME'', 650)]
   \<and> fst (portfolioStatsPhase1 fifoScenario)
       = [(''ACME'', [\<lparr>shares = 5, price = 120, lotDate = 20230601\<rparr>])]"
  by code_simp

text \<open>
  C8, at the staking reward of a coin. The sheet function for crypto positions runs
  \<open>processFifo\<close>, which opens a lot only for \<open>Buy\<close>, \<open>DRIP\<close> and \<open>REWARD\<close>: the row leaves
  the portfolio empty. The fiscal report and the dashboard engine open the lot for the
  same trade.
\<close>

theorem staking_row_opens_no_lot:
  "processFifo [\<lparr>security_i = ''BTC'', actions_i = ''STAKING'', quantity_i = 1, price_i = 100,
                 dates_i = DateCell 20240101\<rparr>] 8 False = []
   \<and> fst (fiscalRun [\<lparr>date = 20240101, ticker = ''BTC'', action = ''STAKING'', qty = 1,
                       unitPrice = 100, totalSpent = 100, assetType = ''Crypto''\<rparr>])
       = [(''BTC'', [\<lparr>shares = 1, price = 100\<rparr>])]
   \<and> fst (portfolioStatsPhase1 [\<lparr>date = 20240101, ticker = ''BTC'', action = ''STAKING'', qty = 1,
                       unitPrice = 100, totalSpent = 100, assetType = ''Crypto''\<rparr>])
       = [(''BTC'', [\<lparr>shares = 1, price = 100, lotDate = 20240101\<rparr>])]"
  by code_simp

section \<open>The reconstruction against the open lots\<close>



lemma statsLoop_Nil: "statsLoop p sp s [] pnl0 = ([], pnl0)"
  by (subst statsLoop.simps) simp





lemma openLots_update: "openLots (AList.update k v pf) t = (if t = k then v else openLots pf t)"
  by (simp add: openLots_def update_conv')

lemma openLots_delete: "openLots (AList.delete k pf) t = (if t = k then [] else openLots pf t)"
  by (simp add: openLots_def delete_conv')

lemma openLots_pushLot:
  "openLots (pushLot k l pf) t = (if t = k then openLots pf k @ [l] else openLots pf t)"
  by (auto simp: pushLot_def openLots_def update_conv' split: option.splits)

lemma dividend_not_buy: "isDividend a \<Longrightarrow> \<not> isBuyAction a \<and> a \<noteq> ''Sell''"
proof -
  have "\<not> isBuyAction ''Dividend''" "\<not> isBuyAction ''Dividends''" by code_simp+
  then show "isDividend a \<Longrightarrow> \<not> isBuyAction a \<and> a \<noteq> ''Sell''"
    by (auto simp: isDividend_def)
qed


lemma statsTrade_lots:
  "openLots (fst (statsTrade (pf, st) d)) t =
     (if t = ticker d \<and> isBuyAction (action d)
      then openLots pf t @ [\<lparr>shares = qty d, price = unitPrice d, lotDate = date d\<rparr>]
      else if t = ticker d \<and> action d = ''Sell''
      then fst (statsLoop (precisionOf d) (unitPrice d) (toFixed (precisionOf d) (qty d))
                  (openLots pf t)
                  (tradingPnL (case map_of st (ticker d) of
                                 None \<Rightarrow> initialStats (assetType d) | Some s \<Rightarrow> s)))
      else openLots pf t)"
proof (cases "isDividend (action d)")
  case True
  with dividend_not_buy [OF True] show ?thesis
    by (simp add: statsTrade_def Let_def)
next
  case nd: False
  show ?thesis
  proof (cases "isBuyAction (action d)")
    case True
    with nd show ?thesis
      by (simp add: statsTrade_def Let_def openLots_pushLot)
  next
    case nb: False
    show ?thesis
    proof (cases "action d = ''Sell''")
      case False
      with nd nb show ?thesis by (simp add: statsTrade_def Let_def)
    next
      case sell: True
      show ?thesis
      proof (cases "map_of pf (ticker d)")
        case None
        then have "openLots pf (ticker d) = []" by (simp add: openLots_def)
        with None nd nb sell show ?thesis
          by (auto simp: statsTrade_def Let_def statsLoop_Nil)
      next
        case (Some q)
        then have q: "openLots pf (ticker d) = q" by (simp add: openLots_def)
        from Some nd nb sell q show ?thesis
          by (auto simp: statsTrade_def Let_def openLots_update openLots_delete)
      qed
    qed
  qed
qed




lemma lots_buy:
  "isBuyAction (action d) \<Longrightarrow>
     openLots (fst (statsTrade (pf, st) d)) (ticker d)
       = openLots pf (ticker d) @ [\<lparr>shares = qty d, price = unitPrice d, lotDate = date d\<rparr>]"
  by (simp add: statsTrade_lots)






















section \<open>Properties of the tax credit basket\<close>

text \<open>
  C2, at a history with a gap. A loss of 500 is realized in 2020 and the next sale, a gain
  of 100, is in 2026. In the row of 2026 the loss of 2020 is not used (the gain is taxed
  in full), it is not reported as expired, and it still counts in the residual basket:
  the clean-up deletes the entry of the year \<open>year - 4\<close> only, and 2022 is not a key.
\<close>

theorem basket_gap_keeps_old_loss:
  "map (\<lambda>r. (rowYear r, usefulGain r, basketUsed r, basketExpired r, netTaxable r, residualBasket r))
     (calculateZainettoReport gapHistory)
   = [(2020, 0, 0, 0, 0, 500), (2026, 100, 0, 0, 100, 500)]"
  by code_simp

text \<open>
  C3, at a year with a gain of 100 and a loss of 300 after a loss of 500 the year before.
  The row of 2021 reports no basket used and a new loss of 200, but the entry of 2020 has
  gone from 500 to 400: the gain was taken from it before the net loss of the year was
  found, and the residual basket is 600 where 700 remain by the claim.
\<close>

theorem net_loss_year_draws_basket:
  "map (\<lambda>r. (rowYear r, usefulGain r, newLosses r, basketUsed r, netTaxable r, residualBasket r))
     (calculateZainettoReport netLossHistory)
   = [(2020, 0, 500, 0, 0, 500), (2021, 100, 200, 0, 0, 600)]
   \<and> fst (zainettoYear (yearlyStatsOf netLossHistory) (yearlyDividendsOf netLossHistory)
             [(2020, 500)] 2021)
       = [(2020, 400), (2021, 200)]"
  by code_simp

lemma set_update_cases:
  "e \<in> set (AList.update k v al) \<Longrightarrow> e = (k, v) \<or> e \<in> set al"
  by (induction al) (auto split: if_splits)

lemma set_delete_subset: "e \<in> set (AList.delete k al) \<Longrightarrow> e \<in> set al"
  by (simp add: AList.delete_eq)

lemma nonnegBucket_update: "nonnegBucket b \<Longrightarrow> 0 \<le> v \<Longrightarrow> nonnegBucket (AList.update k v b)"
  by (auto simp: nonnegBucket_def list_all_iff dest!: set_update_cases)

lemma nonnegBucket_delete: "nonnegBucket b \<Longrightarrow> nonnegBucket (AList.delete k b)"
  by (auto simp: nonnegBucket_def list_all_iff dest!: set_delete_subset)

lemma nonnegBucket_lookup: "nonnegBucket b \<Longrightarrow> map_of b k = Some v \<Longrightarrow> 0 \<le> v"
  by (auto simp: nonnegBucket_def list_all_iff dest!: map_of_SomeD)

lemma useBasket_nonneg:
  assumes "nonnegBucket b" and "0 \<le> rem"
  shows "nonnegBucket (fst (useBasket year ys b used rem)) \<and> 0 \<le> snd (snd (useBasket year ys b used rem))"
  using assms
proof (induction ys arbitrary: b used rem)
  case Nil
  then show ?case by simp
next
  case (Cons y ys)
  show ?case
  proof (cases "year - y > 4")
    case True
    with Cons show ?thesis by simp
  next
    case old: False
    show ?thesis
    proof (cases "map_of b y")
      case None
      with old Cons show ?thesis by simp
    next
      case (Some available)
      with Cons.prems have av: "0 \<le> available" by (auto dest: nonnegBucket_lookup)
      define take where "take = min available rem"
      define b1 where "b1 = AList.update y (available - take) b"
      define b2 where "b2 = (if available - take = 0 then AList.delete y b1 else b1)"
      have t: "0 \<le> take" "take \<le> available" "take \<le> rem"
        using av Cons.prems(2) by (simp_all add: take_def)
      have "nonnegBucket b1"
        unfolding b1_def using Cons.prems(1) t by (intro nonnegBucket_update) simp_all
      then have b2: "nonnegBucket b2"
        unfolding b2_def by (simp add: nonnegBucket_delete)
      have r: "0 \<le> rem - take" using t by simp
      have step: "useBasket year (y # ys) b used rem =
                    (if rem - take = 0 then (b2, used + take, rem - take)
                     else useBasket year ys b2 (used + take) (rem - take))"
        using old Some by (simp add: Let_def take_def b1_def b2_def)
      show ?thesis
      proof (cases "rem - take = 0")
        case True
        with step have "useBasket year (y # ys) b used rem = (b2, used + take, rem - take)"
          by (simp del: useBasket.simps)
        with b2 r show ?thesis by (simp del: useBasket.simps)
      next
        case False
        with step have "useBasket year (y # ys) b used rem
                          = useBasket year ys b2 (used + take) (rem - take)"
          by (simp del: useBasket.simps)
        with Cons.IH [OF b2 r] show ?thesis by (simp del: useBasket.simps)
      qed
    qed
  qed
qed

lemma useBasketStep_props:
  assumes "nonnegBucket b"
  shows "nonnegBucket (fst (useBasketStep s g b year))"
    and "g \<le> snd (snd (useBasketStep s g b year))"
    and "gainCompensabile s = 0 \<Longrightarrow> snd (snd (useBasketStep s g b year)) = g"
  using useBasket_nonneg [OF assms, of "gainCompensabile s" year "sort (map fst b)" 0] assms
  by (auto simp: useBasketStep_def Let_def)

lemma newLossesStep_props:
  assumes "nonnegBucket (fst a)"
  shows "nonnegBucket (fst (newLossesStep s g a year))"
    and "g \<le> snd (snd a) \<Longrightarrow> g \<le> snd (snd (newLossesStep s g a year))"
    and "snd (snd a) = g \<Longrightarrow> snd (snd (newLossesStep s g a year)) = g"
  using assms by (auto simp: newLossesStep_def intro: nonnegBucket_update)

lemma cleanExpiredStep_nonneg:
  "nonnegBucket b \<Longrightarrow> nonnegBucket (snd (cleanExpiredStep b year))"
  by (auto simp: cleanExpiredStep_def split: option.splits intro: nonnegBucket_delete)

lemma zainettoYear_row:
  assumes "nonnegBucket b"
  shows "nonnegBucket (fst (zainettoYear stats divs b year))"
    and "rowOk stats divs (snd (zainettoYear stats divs b year))"
proof -
  define s where "s = statsOr stats year"
  define g where "g = gainNonCompensabile s + getOr0 divs year"
  define a where "a = useBasketStep s g b year"
  define bb where "bb = newLossesStep s g a year"
  have a: "nonnegBucket (fst a)" "g \<le> snd (snd a)" "gainCompensabile s = 0 \<Longrightarrow> snd (snd a) = g"
    unfolding a_def using useBasketStep_props [OF assms] by blast+
  have bb: "nonnegBucket (fst bb)" "g \<le> snd (snd bb)" "gainCompensabile s = 0 \<Longrightarrow> snd (snd bb) = g"
    unfolding bb_def using newLossesStep_props [OF a(1)] a(2,3) by blast+
  have fst_eq: "fst (zainettoYear stats divs b year) = snd (cleanExpiredStep (fst bb) year)"
    by (simp add: zainettoYear_def Let_def statsOr_def s_def g_def a_def bb_def)
  show "nonnegBucket (fst (zainettoYear stats divs b year))"
    unfolding fst_eq by (rule cleanExpiredStep_nonneg [OF bb(1)])
  have row: "rowYear (snd (zainettoYear stats divs b year)) = year"
    "uselessGain (snd (zainettoYear stats divs b year)) = g"
    "usefulGain (snd (zainettoYear stats divs b year)) = gainCompensabile s"
    "netTaxable (snd (zainettoYear stats divs b year)) = snd (snd bb)"
    "taxDue (snd (zainettoYear stats divs b year)) = snd (snd bb) * (26 / 100)"
    by (simp_all add: zainettoYear_def Let_def statsOr_def s_def g_def a_def bb_def)
  show "rowOk stats divs (snd (zainettoYear stats divs b year))"
    unfolding rowOk_def row using bb(2,3) by (simp add: g_def s_def)
qed

lemma zainettoYears_rows:
  "nonnegBucket b \<Longrightarrow> r \<in> set (zainettoYears stats divs b years) \<Longrightarrow> rowOk stats divs r"
proof (induction years arbitrary: b)
  case Nil
  then show ?case by simp
next
  case (Cons y years)
  from zainettoYear_row [OF Cons.prems(1), of stats divs y]
  have b': "nonnegBucket (fst (zainettoYear stats divs b y))"
    and r': "rowOk stats divs (snd (zainettoYear stats divs b y))" by simp_all
  from Cons.prems(2) have "r = snd (zainettoYear stats divs b y)
      \<or> r \<in> set (zainettoYears stats divs (fst (zainettoYear stats divs b y)) years)"
    by (simp add: Let_def)
  with r' Cons.IH [OF b'] show ?case by blast
qed

lemma statsOr_addSale:
  "gainNonCompensabile (statsOr (addSale m t) y)
     = gainNonCompensabile (statsOr m y)
       + (if saleYear t = y \<and> saleType t = ''ETF'' \<and> pnl t \<ge> 0 then pnl t else 0)"
  by (auto simp: statsOr_def addSale_def update_conv' Let_def emptyYear_def split: option.splits)

lemma statsOr_sales:
  "gainNonCompensabile (statsOr (foldl addSale m rows) y)
     = gainNonCompensabile (statsOr m y)
       + sum_list (map pnl (filter (\<lambda>t. saleYear t = y \<and> saleType t = ''ETF'' \<and> pnl t \<ge> 0) rows))"
proof (induction rows arbitrary: m)
  case Nil
  show ?case by simp
next
  case (Cons t rows)
  show ?case
    unfolding foldl_Cons Cons.IH [of "addSale m t"] statsOr_addSale
    by simp
qed

lemma statsOr_addDividendYear: "statsOr (addDividendYear m y') y = statsOr m y"
  by (auto simp: statsOr_def addDividendYear_def update_conv' split: option.splits)

lemma statsOr_dividendYears: "statsOr (foldl addDividendYear m ys) y = statsOr m y"
  by (induction ys arbitrary: m) (simp_all add: statsOr_addDividendYear)

lemma getOr0_addDividend:
  "getOr0 (addDividend m d) y
     = getOr0 m y + (if isDividend (action d) \<and> year_of (date d) = y then totalSpent d else 0)"
  by (auto simp: getOr0_def addDividend_def update_conv' split: option.splits)

lemma getOr0_dividends:
  "getOr0 (foldl addDividend m ds) y
     = getOr0 m y
       + sum_list (map totalSpent (filter (\<lambda>d. isDividend (action d) \<and> year_of (date d) = y) ds))"
proof (induction ds arbitrary: m)
  case Nil
  show ?case by simp
next
  case (Cons d ds)
  show ?case
    unfolding foldl_Cons Cons.IH [of "addDividend m d"] getOr0_addDividend
    by simp
qed

lemma sum_list_insort_key:
  "sum_list (map g (insort_key k x xs)) = g x + sum_list (map g xs)"
  for g :: "'a \<Rightarrow> rat" and k :: "'a \<Rightarrow> int"
  by (induction xs) simp_all

lemma sum_list_sort_key:
  "sum_list (map g (sort_key k xs)) = sum_list (map g xs)"
  for g :: "'a \<Rightarrow> rat" and k :: "'a \<Rightarrow> int"
  by (induction xs) (simp_all add: sum_list_insort_key)

lemma uselessGain_stats:
  "gainNonCompensabile (statsOr (yearlyStatsOf allData) y) = etfGainsIn allData y"
proof -
  have "gainNonCompensabile (statsOr [] y) = 0"
    by (simp add: statsOr_def emptyYear_def)
  then show ?thesis
    by (simp add: yearlyStatsOf_def statsOr_dividendYears statsOr_sales etfGainsIn_def)
qed

lemma dividends_stats: "getOr0 (yearlyDividendsOf allData) y = dividendsIn allData y"
proof -
  have "getOr0 (yearlyDividendsOf allData) y
          = sum_list (map totalSpent
              (filter (\<lambda>d. isDividend (action d) \<and> year_of (date d) = y) (sort_key date allData)))"
    by (simp add: yearlyDividendsOf_def getOr0_dividends) (simp add: getOr0_def)
  also have "\<dots> = sum_list (map totalSpent
              (sort_key date (filter (\<lambda>d. isDividend (action d) \<and> year_of (date d) = y) allData)))"
    by (simp add: filter_sort)
  also have "\<dots> = dividendsIn allData y"
    by (simp add: sum_list_sort_key dividendsIn_def)
  finally show ?thesis .
qed

text \<open>
  C6. Every row of the basket report has, as non-compensable gain, the ETF gains of its year
  plus the dividends of its year; the taxable base is never below that amount, whatever the
  basket holds; the tax is 26\% of the base; and in a year with no compensable gain the
  base is exactly the non-compensable gain.
\<close>

theorem noncompensable_gains_taxed_in_full:
  assumes "r \<in> set (calculateZainettoReport allData)"
  shows "uselessGain r = etfGainsIn allData (rowYear r) + dividendsIn allData (rowYear r)
         \<and> uselessGain r \<le> netTaxable r
         \<and> taxDue r = netTaxable r * (26 / 100)
         \<and> (usefulGain r = 0 \<longrightarrow> netTaxable r = uselessGain r)"
proof -
  have "nonnegBucket []" by (simp add: nonnegBucket_def)
  from zainettoYears_rows [OF this] assms
  have "rowOk (yearlyStatsOf allData) (yearlyDividendsOf allData) r"
    by (simp add: calculateZainettoReport_def Let_def)
  then show ?thesis
    by (simp add: rowOk_def uselessGain_stats dividends_stats)
qed

theorem noncompensable_gains_taxed_in_full_witness:
  "rowYear (calculateZainettoReport etfHistory ! 1) = 2021
   \<and> etfGainsIn etfHistory 2021 = 500
   \<and> usefulGain (calculateZainettoReport etfHistory ! 1) = 0
   \<and> netTaxable (calculateZainettoReport etfHistory ! 1) = 500
   \<and> taxDue (calculateZainettoReport etfHistory ! 1) = 130
   \<and> residualBasket (calculateZainettoReport etfHistory ! 1) = 500"
proof -
  have len: "length (calculateZainettoReport etfHistory) = 2" by code_simp
  then have mem: "calculateZainettoReport etfHistory ! 1 \<in> set (calculateZainettoReport etfHistory)"
    by simp
  have y: "rowYear (calculateZainettoReport etfHistory ! 1) = 2021" by code_simp
  have e: "etfGainsIn etfHistory 2021 = 500" by code_simp
  have d: "dividendsIn etfHistory 2021 = 0" by code_simp
  have u: "usefulGain (calculateZainettoReport etfHistory ! 1) = 0" by code_simp
  have b: "residualBasket (calculateZainettoReport etfHistory ! 1) = 500" by code_simp
  from noncompensable_gains_taxed_in_full [OF mem] y e d u
  have "netTaxable (calculateZainettoReport etfHistory ! 1) = 500"
    and "taxDue (calculateZainettoReport etfHistory ! 1) = 130"
    by simp_all
  with y e u b show ?thesis by simp
qed

section \<open>Properties of the normalizer\<close>

lemma isBuyAction_Buy: "isBuyAction ''Buy''"
  by code_simp

lemma not_isDividend_Buy: "\<not> isDividend ''Buy''"
  by code_simp

lemma emitted_mem: "Emitted t \<in> set rs \<Longrightarrow> t \<in> set (emitted rs)"
  by (induction rs rule: emitted.induct) auto

lemma finiteNumber_iff: "finiteNumber n \<longleftrightarrow> (\<exists>x. n = Fin x)"
  by (cases n) (simp_all add: finiteNumber_def)

lemma normalizeData_mem:
  assumes "i < length (flat security)"
    and "normalizeRow now (flat dates) (flat security) (flat actions) (flat quantity)
           (flat priceCol) (flat spentCol) (flat typeCol) isCryptoMode i \<noteq> Skipped"
  shows "normalizeRow now (flat dates) (flat security) (flat actions) (flat quantity)
           (flat priceCol) (flat spentCol) (flat typeCol) isCryptoMode i
         \<in> set (normalizeData now dates security actions quantity priceCol spentCol typeCol isCryptoMode)"
  using assms by (simp add: normalizeData_def)

lemma normalizeRow_blank_action:
  assumes "i < length flatSec" and "flatSec ! i = tk" and "tk \<noteq> []"
    and "\<not> includes_str (toUpperCase tk) ''CASH''" and "\<not> includes_str (toUpperCase tk) ''EUR''"
    and "cellAt flatAct i = None \<or> cellAt flatAct i = Some []"
  shows "\<not> finiteRow flatQty flatPriceUnit flatSpent mode i \<Longrightarrow>
           \<exists>dt. normalizeRow now flatDates flatSec flatAct flatQty flatPriceUnit flatSpent flatType mode i
                  = NotFinite dt tk ''Buy''"
    and "finiteRow flatQty flatPriceUnit flatSpent mode i \<Longrightarrow>
           \<exists>t. normalizeRow now flatDates flatSec flatAct flatQty flatPriceUnit flatSpent flatType mode i
                  = Emitted t \<and> ticker t = tk \<and> action t = ''Buy''
                \<and> cleanNumber (numAt flatQty i) = Fin (qty t)"
proof -
  from assms(6) have act: "(case cellAt flatAct i of Some a \<Rightarrow> if a \<noteq> [] then a else ''Buy'' | None \<Rightarrow> ''Buy'') = ''Buy''"
    by auto
  from assms(1,2) have sec: "cellAt flatSec i = Some tk"
    by (simp add: cellAt_def)
  show "\<not> finiteRow flatQty flatPriceUnit flatSpent mode i \<Longrightarrow>
           \<exists>dt. normalizeRow now flatDates flatSec flatAct flatQty flatPriceUnit flatSpent flatType mode i
                  = NotFinite dt tk ''Buy''"
    unfolding normalizeRow_def sec option.case Let_def act finiteRow_def
    using assms(3,4,5)
    by (auto simp: finiteNumber_def split: jsnum.splits)
  show "finiteRow flatQty flatPriceUnit flatSpent mode i \<Longrightarrow>
           \<exists>t. normalizeRow now flatDates flatSec flatAct flatQty flatPriceUnit flatSpent flatType mode i
                  = Emitted t \<and> ticker t = tk \<and> action t = ''Buy''
                \<and> cleanNumber (numAt flatQty i) = Fin (qty t)"
    unfolding normalizeRow_def sec option.case Let_def act finiteRow_def
    using assms(3,4,5)
    by (auto simp: finiteNumber_iff)
qed

lemma buy_trade_downstream:
  assumes "action t = ''Buy''"
  shows "openLots (fst (statsTrade (pf, stats) t)) (ticker t)
           = openLots pf (ticker t) @ [\<lparr>shares = qty t, price = unitPrice t, lotDate = date t\<rparr>]"
    and "investedBefore (snd (statsTrade (pf, stats) t)) (ticker t)
           = investedBefore stats (ticker t) + totalSpent t"
proof -
  from assms isBuyAction_Buy have "isBuyAction (action t)" by simp
  then show "openLots (fst (statsTrade (pf, stats) t)) (ticker t)
               = openLots pf (ticker t) @ [\<lparr>shares = qty t, price = unitPrice t, lotDate = date t\<rparr>]"
    by (rule lots_buy)
  from assms isBuyAction_Buy not_isDividend_Buy
  show "investedBefore (snd (statsTrade (pf, stats) t)) (ticker t)
          = investedBefore stats (ticker t) + totalSpent t"
    by (auto simp: statsTrade_def Let_def investedBefore_def update_conv' initialStats_def
             split: option.splits)
qed

text \<open>
  C10. Take a row of the sheet whose ticker is not blank and names neither cash nor euro,
  and whose action cell is blank or missing; the other rows of the sheet are arbitrary. The
  row is not skipped: it is in the output of \<open>normalizeData\<close> with the action \<open>Buy\<close>. When
  its own numbers are finite it is there as a trade with the action \<open>Buy\<close> and the cleaned
  quantity of the row, and the dashboard engine, given that trade, appends a lot of that
  quantity to the open lots of the ticker and adds the amount of the trade to the capital
  invested in the ticker. When one of its numbers is infinite it is there as a \<open>NotFinite\<close>
  row, again with the action \<open>Buy\<close>.
\<close>

theorem blank_action_is_buy:
  assumes "i < length (flat security)"
    and "flat security ! i = tk"
    and "tk \<noteq> []"
    and "\<not> includes_str (toUpperCase tk) ''CASH''"
    and "\<not> includes_str (toUpperCase tk) ''EUR''"
    and "cellAt (flat actions) i = None \<or> cellAt (flat actions) i = Some []"
  shows "normalizeRow now (flat dates) (flat security) (flat actions) (flat quantity)
           (flat priceCol) (flat spentCol) (flat typeCol) isCryptoMode i
           \<in> set (normalizeData now dates security actions quantity priceCol spentCol typeCol
                    isCryptoMode)
         \<and> (\<not> finiteRow (flat quantity) (flat priceCol) (flat spentCol) isCryptoMode i \<longrightarrow>
              (\<exists>dt. normalizeRow now (flat dates) (flat security) (flat actions) (flat quantity)
                       (flat priceCol) (flat spentCol) (flat typeCol) isCryptoMode i
                     = NotFinite dt tk ''Buy''))
         \<and> (finiteRow (flat quantity) (flat priceCol) (flat spentCol) isCryptoMode i \<longrightarrow>
              (\<exists>t. normalizeRow now (flat dates) (flat security) (flat actions) (flat quantity)
                      (flat priceCol) (flat spentCol) (flat typeCol) isCryptoMode i = Emitted t
                   \<and> t \<in> set (emitted (normalizeData now dates security actions quantity priceCol
                                         spentCol typeCol isCryptoMode))
                   \<and> ticker t = tk \<and> action t = ''Buy''
                   \<and> cleanNumber (numAt (flat quantity) i) = Fin (qty t)
                   \<and> openLots (fst (statsTrade (pf, stats) t)) tk
                       = openLots pf tk @ [\<lparr>shares = qty t, price = unitPrice t, lotDate = date t\<rparr>]
                   \<and> investedBefore (snd (statsTrade (pf, stats) t)) tk
                       = investedBefore stats tk + totalSpent t))"
proof -
  define f where "f = normalizeRow now (flat dates) (flat security) (flat actions) (flat quantity)
                        (flat priceCol) (flat spentCol) (flat typeCol) isCryptoMode"
  define out where "out = normalizeData now dates security actions quantity priceCol spentCol
                            typeCol isCryptoMode"
  define fin where "fin = finiteRow (flat quantity) (flat priceCol) (flat spentCol) isCryptoMode i"
  note blank = normalizeRow_blank_action [OF assms(1-6), of "flat quantity" "flat priceCol"
                 "flat spentCol" isCryptoMode now "flat dates" "flat typeCol",
                 folded f_def fin_def]
  from blank have ns: "f i \<noteq> Skipped"
    by (cases fin) auto
  have mem: "f i \<in> set out"
    unfolding f_def out_def using assms(1) ns [unfolded f_def] by (rule normalizeData_mem)
  have inf: "\<exists>dt. f i = NotFinite dt tk ''Buy''" if "\<not> fin"
    using blank(1) that .
  have ok: "\<exists>t. f i = Emitted t \<and> t \<in> set (emitted out) \<and> ticker t = tk \<and> action t = ''Buy''
               \<and> cleanNumber (numAt (flat quantity) i) = Fin (qty t)
               \<and> openLots (fst (statsTrade (pf, stats) t)) tk
                   = openLots pf tk @ [\<lparr>shares = qty t, price = unitPrice t, lotDate = date t\<rparr>]
               \<and> investedBefore (snd (statsTrade (pf, stats) t)) tk
                   = investedBefore stats tk + totalSpent t" if fin
  proof -
    from blank(2) [OF that] obtain t where t: "f i = Emitted t" "ticker t = tk" "action t = ''Buy''"
      "cleanNumber (numAt (flat quantity) i) = Fin (qty t)"
      by blast
    from mem t(1) have "t \<in> set (emitted out)"
      by (simp add: emitted_mem)
    with t buy_trade_downstream [OF t(3), of pf stats] show ?thesis
      by auto
  qed
  from mem inf ok show ?thesis
    unfolding f_def out_def fin_def by blast
qed

theorem blank_action_is_buy_witness:
  "\<lparr>date = 20240105, ticker = ''ACME'', action = ''Buy'', qty = 3, unitPrice = 20001 / 20,
     totalSpent = 60003 / 20, assetType = ''Stock''\<rparr>
     \<in> set (emitted (normalizeData 20261102 (Some [Some 20240105, Some 20240210])
                       (Some [''ACME'', ''BETA'']) (Some [[], ''Sell''])
                       (Some [CNum 3, CNum 1])
                       (Some [CStr (js ''1.000,05''), CStr (js ''Infinity'')]) None None False))
   \<and> NotFinite 20240210 ''BETA'' ''Sell''
     \<in> set (normalizeData 20261102 (Some [Some 20240105, Some 20240210])
              (Some [''ACME'', ''BETA'']) (Some [[], ''Sell''])
              (Some [CNum 3, CNum 1])
              (Some [CStr (js ''1.000,05''), CStr (js ''Infinity'')]) None None False)
   \<and> openLots (fst (statsTrade ([], [])
        \<lparr>date = 20240105, ticker = ''ACME'', action = ''Buy'', qty = 3, unitPrice = 20001 / 20,
          totalSpent = 60003 / 20, assetType = ''Stock''\<rparr>)) ''ACME''
       = [\<lparr>shares = 3, price = 20001 / 20, lotDate = 20240105\<rparr>]
   \<and> investedBefore (snd (statsTrade ([], [])
        \<lparr>date = 20240105, ticker = ''ACME'', action = ''Buy'', qty = 3, unitPrice = 20001 / 20,
          totalSpent = 60003 / 20, assetType = ''Stock''\<rparr>)) ''ACME'' = 60003 / 20"
proof -
  let ?sec = "Some [''ACME'', ''BETA'']"
  let ?act = "Some [[], ''Sell'']"
  let ?qty = "Some [CNum 3, CNum 1]"
  let ?price = "Some [CStr (js ''1.000,05''), CStr (js ''Infinity'')]"
  let ?dates = "Some [Some 20240105, Some 20240210]"
  let ?t = "\<lparr>date = 20240105, ticker = ''ACME'', action = ''Buy'', qty = 3,
             unitPrice = 20001 / 20, totalSpent = 60003 / 20, assetType = ''Stock''\<rparr>"
  have i: "0 < length (flat ?sec)" by (simp add: flat_def)
  have s: "flat ?sec ! 0 = ''ACME''" by (simp add: flat_def)
  have c1: "\<not> includes_str (toUpperCase ''ACME'') ''CASH''" by code_simp
  have c2: "\<not> includes_str (toUpperCase ''ACME'') ''EUR''" by code_simp
  have b: "cellAt (flat ?act) 0 = None \<or> cellAt (flat ?act) 0 = Some ([] :: string)"
    by (simp add: flat_def cellAt_def)
  have f: "finiteRow (flat ?qty) (flat ?price) (flat None) False 0"
    by code_simp
  have r: "normalizeRow 20261102 (flat ?dates) (flat ?sec) (flat ?act) (flat ?qty) (flat ?price)
             (flat None) (flat None) False 0 = Emitted ?t"
    by code_simp
  have e: "openLots ([] :: statsPortfolio) ''ACME'' = []"
    by (simp add: openLots_def)
  have z: "investedBefore [] ''ACME'' = 0"
    by (simp add: investedBefore_def)
  have n: "NotFinite 20240210 ''BETA'' ''Sell''
             \<in> set (normalizeData 20261102 ?dates ?sec ?act ?qty ?price None None False)"
    by code_simp
  from blank_action_is_buy [OF i s _ c1 c2 b, of 20261102 ?dates ?qty ?price None None False "[]" "[]"]
    f r e z n
  show ?thesis
    by auto
qed

end
